theory Spec2Isabelle
  imports Main "HOL-Library.Char_ord" "HOL-Library.List_Lexorder" "HOL-Library.Multiset"
begin

section \<open>HughesLabTools: devices, grouping and merging\<close>

text \<open>
  A shallow embedding of \<^verbatim>\<open>Device.py\<close> and \<^verbatim>\<open>DeviceManager.py\<close>.
  Python objects that are mutated in place become values that are passed in and
  returned. A call returns the state it leaves behind, what it wrote to the log
  window or the console, and the exception that escaped it, if any: a Python
  exception does not undo the mutations made before it.
\<close>

subsection \<open>Values, errors and effects\<close>

datatype pyerror =
  KeyError | TypeError | AttributeError | ZeroDivisionError | IndexError
  | IOError | ValueError | IllegalArgumentException

text \<open>
  The value held under a type name in \<^verbatim>\<open>image_paths\<close>: \<^verbatim>\<open>None\<close> (as
  constructed, and after the last path has been removed), a single path string
  (written by \<^verbatim>\<open>_set_image_paths_from_dict\<close>) or a list of paths.
\<close>

datatype pval = PNone | PStr string | PList "string list"

datatype level = INFO | WARNING | ERROR

text \<open>
  A log message is its format string together with the arguments it is formatted
  with; the text of the formatted line is not modelled.
\<close>

text \<open>
  What the colouring loop iterates over: a path, or (for the empty type name, for which
  the getters return the whole dictionary) the dictionary itself.
\<close>

datatype pathlike = Path string | Dict_object

datatype msg =
  Set_image_path_for string pval
  | Set_colored_image_path_for string string
  | Updated_image_type_for string string string
  | Error_old_type_not_found string string
  | No_image_paths_found "string option" string
  | Error_loading_image pathlike
  | Saved_colored_image_at string
  | Error_applying_color pathlike
  | Colored_image_paths_to_merge "pathlike list"
  | Loaded_images_for_merging nat
  | Merged_image_saved "string option"
  | No_colored_images_found "string option"
  | Error_merging_images "string option"
  | Cropping_all_images nat nat
  | All_images_same_dimensions nat nat
  | Added_device string
  | Walking_directory_and_subdirectories string
  | Walking_directory string
  | Warning_not_a_multiple
  | Assigned_images_to_devices int
  | Failed_to_save_image string
  | Attempting_to_load_image pathlike
  | Loaded_image_successfully string
  | Image_saved_successfully string
  | Confirming_image_types "string option"
  | Applying_color_to_device "string option"
  | Merging_images_for_device "string option"
  | Finished_processing_all_devices

text \<open>
  What a call does to the outside world, in order: a line in the ImageJ log window
  (with the device name it is tagged with), an exception handed to ImageJ, a line
  printed on the console by the manager or by an image (\<^verbatim>\<open>DeviceImage.log\<close>), an
  image file written, an image window opened by \<^verbatim>\<open>show\<close>.
\<close>

datatype event =
  IJ_log level "string option" msg
  | IJ_handleException msg
  | Print level msg
  | IJ_save string
  | Show_image string

type_synonym 's res = "'s \<times> event list \<times> pyerror option"

definition res_state :: "'s res \<Rightarrow> 's" where
  "res_state r = fst r"

definition res_out :: "'s res \<Rightarrow> event list" where
  "res_out r = fst (snd r)"

definition res_exc :: "'s res \<Rightarrow> pyerror option" where
  "res_exc r = snd (snd r)"

text \<open>Python truthiness of an optional string argument: neither \<^verbatim>\<open>None\<close> nor empty.\<close>

definition truthy :: "string option \<Rightarrow> bool" where
  "truthy s = (case s of None \<Rightarrow> False | Some t \<Rightarrow> t \<noteq> [])"

text \<open>\<^verbatim>\<open>a in b\<close> on two strings is the substring test.\<close>

fun str_contains :: "string \<Rightarrow> string \<Rightarrow> bool" where
  "str_contains [] p = (p = [])"
| "str_contains (c # cs) p = (take (length p) (c # cs) = p \<or> str_contains cs p)"

subsection \<open>Device\<close>

record device =
  name :: "string option"
  typeNames :: "string list"
  deviceDir :: "string option"
  verbose :: bool
  image_paths :: "string \<rightharpoonup> pval"
  colored_image_paths :: "string \<rightharpoonup> string option"

text \<open>\<^verbatim>\<open>Device.__init__\<close>: both dictionaries get every type name as a key, with \<^verbatim>\<open>None\<close>.\<close>

definition Device_init :: "string list \<Rightarrow> string option \<Rightarrow> string option \<Rightarrow> bool \<Rightarrow> device" where
  "Device_init tns nm dir vb =
     \<lparr>name = nm, typeNames = tns, deviceDir = dir, verbose = vb,
      image_paths = map_of (map (\<lambda>image_type. (image_type, PNone)) tns),
      colored_image_paths = map_of (map (\<lambda>image_type. (image_type, None)) tns)\<rparr>"

text \<open>
  \<^verbatim>\<open>Device.log\<close>: an \<^verbatim>\<open>ERROR\<close> goes to \<^verbatim>\<open>IJ.handleException\<close>, a \<^verbatim>\<open>WARNING\<close> is
  always written, an \<^verbatim>\<open>INFO\<close> (the default level) only when the device is verbose.
\<close>

definition log :: "device \<Rightarrow> msg \<Rightarrow> level \<Rightarrow> event list" where
  "log d message lvl =
     (if lvl = ERROR then [IJ_handleException message]
      else if lvl = WARNING then [IJ_log WARNING (name d) message]
      else if lvl = INFO \<and> verbose d then [IJ_log INFO (name d) message]
      else [])"

text \<open>
  \<^verbatim>\<open>update_image_type(image_path, old_type, new_type, image)\<close>. The membership test
  raises \<^verbatim>\<open>TypeError\<close> on \<^verbatim>\<open>None\<close> and is the substring test on a string, on which
  \<^verbatim>\<open>remove\<close> and \<^verbatim>\<open>append\<close> raise \<^verbatim>\<open>AttributeError\<close>; \<^verbatim>\<open>list.remove\<close> deletes
  the first occurrence. The block that adds the path to the new type is at the
  level of the outer \<^verbatim>\<open>if\<close>: it runs whether or not the path was found.
\<close>

definition remove_from_old :: "device \<Rightarrow> string \<Rightarrow> string \<Rightarrow> device res" where
  "remove_from_old d image_path old_type =
     (case image_paths d old_type of
        None \<Rightarrow> (d, [], Some KeyError)
      | Some PNone \<Rightarrow> (d, [], Some TypeError)
      | Some (PStr s) \<Rightarrow>
          (if str_contains s image_path then (d, [], Some AttributeError) else (d, [], None))
      | Some (PList xs) \<Rightarrow>
          (if image_path \<in> set xs then
             (let ys = remove1 image_path xs in
              (d\<lparr>image_paths := (image_paths d)(old_type \<mapsto> (if ys = [] then PNone else PList ys))\<rparr>,
               [], None))
           else (d, [], None)))"

definition add_to_new :: "device \<Rightarrow> string \<Rightarrow> string \<Rightarrow> device res" where
  "add_to_new d image_path new_type =
     (let d1 = (if image_paths d new_type = None \<or> image_paths d new_type = Some PNone
                then d\<lparr>image_paths := (image_paths d)(new_type \<mapsto> PList [])\<rparr> else d)
      in case image_paths d1 new_type of
           Some (PList ys) \<Rightarrow>
             (d1\<lparr>image_paths := (image_paths d1)(new_type \<mapsto> PList (ys @ [image_path]))\<rparr>, [], None)
         | _ \<Rightarrow> (d1, [], Some AttributeError))"

definition update_image_type :: "device \<Rightarrow> string \<Rightarrow> string \<Rightarrow> string \<Rightarrow> device res" where
  "update_image_type d image_path old_type new_type =
     (if image_paths d old_type \<noteq> None then
        (case remove_from_old d image_path old_type of
           (d1, _, Some e) \<Rightarrow> (d1, [], Some e)
         | (d1, _, None) \<Rightarrow>
             (case add_to_new d1 image_path new_type of
                (d2, _, Some e) \<Rightarrow> (d2, [], Some e)
              | (d2, _, None) \<Rightarrow>
                  (d2, log d2 (Updated_image_type_for image_path old_type new_type) INFO, None)))
      else (d, log d (Error_old_type_not_found old_type image_path) INFO, None))"

text \<open>The paths filed under a type: none for a missing key or \<^verbatim>\<open>None\<close>.\<close>

definition raw_paths :: "device \<Rightarrow> string \<Rightarrow> string list" where
  "raw_paths d t = (case image_paths d t of Some (PList xs) \<Rightarrow> xs | Some (PStr s) \<Rightarrow> [s] | _ \<Rightarrow> [])"


subsection \<open>Paths\<close>

text \<open>
  The functions of \<^verbatim>\<open>os.path\<close> that the code calls, in their POSIX form.
  \<^verbatim>\<open>os.path.abspath\<close> depends on the working directory of the process and is a
  parameter of the model (see \<open>env\<close> below).
\<close>

definition join :: "string \<Rightarrow> string \<Rightarrow> string" where
  "join a b =
     (if b \<noteq> [] \<and> hd b = CHR ''/'' then b
      else if a = [] \<or> last a = CHR ''/'' then a @ b
      else a @ ''/'' @ b)"

definition basename :: "string \<Rightarrow> string" where
  "basename p = rev (takeWhile (\<lambda>c. c \<noteq> CHR ''/'') (rev p))"

definition dirname :: "string \<Rightarrow> string" where
  "dirname p =
     (let head = rev (dropWhile (\<lambda>c. c \<noteq> CHR ''/'') (rev p)) in
      if head \<noteq> [] \<and> \<not> list_all (\<lambda>c. c = CHR ''/'') head
      then rev (dropWhile (\<lambda>c. c = CHR ''/'') (rev head)) else head)"

text \<open>
  \<^verbatim>\<open>os.path.splitext\<close>: the extension starts at the last dot of the last path
  component, unless only dots precede it there.
\<close>

definition splitext :: "string \<Rightarrow> string \<times> string" where
  "splitext p =
     (let b = basename p;
          ext = CHR ''.'' # rev (takeWhile (\<lambda>c. c \<noteq> CHR ''.'') (rev b));
          stem = take (length b - length ext) b
      in if CHR ''.'' \<in> set b \<and> \<not> list_all (\<lambda>c. c = CHR ''.'') stem
         then (take (length p - length ext) p, ext) else (p, []))"

subsection \<open>Images and the imaging library\<close>

record image =
  title :: string
  width :: nat
  height :: nat
  pixel :: "nat \<Rightarrow> nat \<Rightarrow> nat"

text \<open>
  \<^verbatim>\<open>processor.setRoi(x, y, w, h); processor.crop()\<close> wrapped in a new
  \<^verbatim>\<open>DeviceImage\<close> with the old title: the pixel at \<open>(i, j)\<close> of the result is the
  pixel at \<open>(x + i, y + j)\<close> of the source.
\<close>

definition crop_roi :: "image \<Rightarrow> nat \<Rightarrow> nat \<Rightarrow> nat \<Rightarrow> nat \<Rightarrow> image" where
  "crop_roi img x y w h =
     \<lparr>title = title img, width = w, height = h, pixel = (\<lambda>i j. pixel img (x + i) (y + j))\<rparr>"

text \<open>
  What the code gets from outside: the file system and ImageJ.
  \<^item> \<open>abspath\<close> is \<^verbatim>\<open>os.path.abspath\<close>;
  \<^item> \<open>open_image p\<close> is the image that \<^verbatim>\<open>DeviceImage._lazy_load\<close> loads from \<open>p\<close>,
    \<open>None\<close> when it raises \<^verbatim>\<open>IOError\<close> (missing, unreadable or undecodable file);
  \<^item> \<open>apply_color_raises color p\<close>: \<^verbatim>\<open>DeviceImage.apply_color\<close> raises on the image
    loaded from \<open>p\<close>;
  \<^item> \<open>makedirs_raises dir\<close>: the directory is missing and cannot be created;
  \<^item> \<open>save_fails p\<close>: \<^verbatim>\<open>IJ.save\<close> raises, which \<^verbatim>\<open>DeviceImage.save\<close> catches and
    reports on the console;
  \<^item> \<open>zproject\<close> is \<^verbatim>\<open>ZProjector.run(imp, 'sum')\<close> on the slices of a stack;
  \<^item> \<open>dialog_session d\<close> is what the confirmation dialogs of \<^verbatim>\<open>ImageTypeChangerGui\<close>
    on device \<open>d\<close> end in: the reassignments \<open>(image_path, old_type, new_type)\<close> they
    make, in order, and the exception that ended them, if any. Which images are
    shown and what the user answers is input.
\<close>

record env =
  abspath :: "string \<Rightarrow> string"
  open_image :: "string \<Rightarrow> image option"
  apply_color_raises :: "string \<Rightarrow> string \<Rightarrow> bool"
  makedirs_raises :: "string \<Rightarrow> bool"
  save_fails :: "string \<Rightarrow> bool"
  zproject :: "image list \<Rightarrow> nat \<Rightarrow> nat \<Rightarrow> nat"
  dialog_session :: "device \<Rightarrow> (string \<times> string \<times> string) list \<times> pyerror option"

subsection \<open>Device: setting paths\<close>

text \<open>The argument \<^verbatim>\<open>image_paths\<close> of \<^verbatim>\<open>set_image_paths\<close>: a dictionary or a list.\<close>

datatype paths_arg = Dict_arg "(string \<times> string) list" | List_arg "string list"

fun set_image_paths_from_dict :: "env \<Rightarrow> device \<Rightarrow> (string \<times> string) list \<Rightarrow> device" where
  "set_image_paths_from_dict E d [] = d"
| "set_image_paths_from_dict E d ((img_type, img_path) # items) =
     set_image_paths_from_dict E
       (if image_paths d img_type \<noteq> None
        then d\<lparr>image_paths := (image_paths d)(img_type \<mapsto> PStr (abspath E img_path))\<rparr> else d)
       items"

definition set_image_paths_from_list :: "env \<Rightarrow> device \<Rightarrow> string \<Rightarrow> string list \<Rightarrow> device" where
  "set_image_paths_from_list E d image_type paths =
     d\<lparr>image_paths := (image_paths d)(image_type \<mapsto> PList (map (abspath E) paths))\<rparr>"

text \<open>\<^verbatim>\<open>_set_image_path\<close>: guarded by the key test; \<^verbatim>\<open>append\<close> on a string raises.\<close>

definition set_image_path :: "env \<Rightarrow> device \<Rightarrow> string \<Rightarrow> string \<Rightarrow> device res" where
  "set_image_path E d image_type image_path =
     (if image_paths d image_type \<noteq> None then
        (let d1 = (if image_paths d image_type = Some PNone
                   then d\<lparr>image_paths := (image_paths d)(image_type \<mapsto> PList [])\<rparr> else d)
         in case image_paths d1 image_type of
              Some (PList xs) \<Rightarrow>
                (d1\<lparr>image_paths := (image_paths d1)(image_type \<mapsto> PList (xs @ [abspath E image_path]))\<rparr>,
                 [], None)
            | _ \<Rightarrow> (d1, [], Some AttributeError))
      else (d, [], None))"

text \<open>
  \<^verbatim>\<open>set_image_paths(image_type=None, image_path=None, image_paths=None)\<close>: the
  \<^verbatim>\<open>if\<close>/\<^verbatim>\<open>elif\<close> chain on the truthiness and the type of the arguments
  (\<open>set_image_paths_branch\<close>), then the log line. That last
  line formats \<^verbatim>\<open>self.image_paths[image_type]\<close> into the log message before
  \<^verbatim>\<open>log\<close> is called, whatever branch was taken: a type that is not a key raises
  \<^verbatim>\<open>KeyError\<close> there.
\<close>

definition set_image_paths_branch ::
  "env \<Rightarrow> device \<Rightarrow> string option \<Rightarrow> string option \<Rightarrow> paths_arg option \<Rightarrow> device res" where
  "set_image_paths_branch E d image_type image_path paths =
     (case paths of
        Some (Dict_arg items) \<Rightarrow>
          (if items \<noteq> [] then (set_image_paths_from_dict E d items, [], None)
           else if truthy image_type \<and> truthy image_path
           then set_image_path E d (the image_type) (the image_path)
           else (d, [], None))
      | Some (List_arg ps) \<Rightarrow>
          (if truthy image_type \<and> ps \<noteq> []
           then (set_image_paths_from_list E d (the image_type) ps, [], None)
           else if truthy image_type \<and> truthy image_path
           then set_image_path E d (the image_type) (the image_path)
           else (d, [], None))
      | None \<Rightarrow>
          (if truthy image_type \<and> truthy image_path
           then set_image_path E d (the image_type) (the image_path)
           else (d, [], None)))"

definition set_image_paths ::
  "env \<Rightarrow> device \<Rightarrow> string option \<Rightarrow> string option \<Rightarrow> paths_arg option \<Rightarrow> device res" where
  "set_image_paths E d image_type image_path paths =
     (case set_image_paths_branch E d image_type image_path paths of
        (d1, _, Some e) \<Rightarrow> (d1, [], Some e)
      | (d1, _, None) \<Rightarrow>
          (case image_type of
             None \<Rightarrow> (d1, [], Some KeyError)
           | Some t \<Rightarrow>
               (case image_paths d1 t of
                  None \<Rightarrow> (d1, [], Some KeyError)
                | Some v \<Rightarrow> (d1, log d1 (Set_image_path_for t v) INFO, None))))"

text \<open>
  The call forms of \<^verbatim>\<open>set_image_paths\<close>: the branch of the list helper is taken for a
  truthy type and a non-empty list, that of the dictionary helper for a non-empty
  dictionary. \<open>is_key\<close>: the type argument is a key of the raw-path dictionary.
\<close>

definition list_form :: "string option \<Rightarrow> paths_arg option \<Rightarrow> bool" where
  "list_form image_type paths =
     (truthy image_type \<and> (case paths of Some (List_arg ps) \<Rightarrow> ps \<noteq> [] | _ \<Rightarrow> False))"

definition dict_form :: "paths_arg option \<Rightarrow> bool" where
  "dict_form paths = (case paths of Some (Dict_arg items) \<Rightarrow> items \<noteq> [] | _ \<Rightarrow> False)"

definition is_key :: "device \<Rightarrow> string option \<Rightarrow> bool" where
  "is_key d image_type = (case image_type of None \<Rightarrow> False | Some t \<Rightarrow> image_paths d t \<noteq> None)"

definition set_colored_image_path :: "env \<Rightarrow> device \<Rightarrow> string \<Rightarrow> string \<Rightarrow> device res" where
  "set_colored_image_path E d image_type image_path =
     (if colored_image_paths d image_type \<noteq> None then
        (let d1 = d\<lparr>colored_image_paths :=
                      (colored_image_paths d)(image_type \<mapsto> Some (abspath E image_path))\<rparr>
         in (d1, log d1 (Set_colored_image_path_for image_type (abspath E image_path)) INFO, None))
      else (d, [], None))"

subsection \<open>Device: colouring\<close>

text \<open>
  \<^verbatim>\<open>DeviceImage.log\<close>: a \<^verbatim>\<open>WARNING\<close> is printed, an \<^verbatim>\<open>INFO\<close> only by a verbose image.
\<close>

definition image_log :: "bool \<Rightarrow> msg \<Rightarrow> level \<Rightarrow> event list" where
  "image_log vb message lvl =
     (if lvl = WARNING then [Print WARNING message]
      else if vb \<and> lvl = INFO then [Print INFO message]
      else [])"

text \<open>What \<^verbatim>\<open>DeviceImage(image_path=p)\<close> is before anything is loaded into it.\<close>

definition blank_image :: image where
  "blank_image = \<lparr>title = [], width = 0, height = 0, pixel = (\<lambda>i j. 0)\<rparr>"

text \<open>
  \<^verbatim>\<open>_load_image(image_path, verbose)\<close>: a \<^verbatim>\<open>DeviceImage\<close> with that verbosity is made
  and \<^verbatim>\<open>_lazy_load\<close> is called, which does nothing for an empty path, and otherwise
  announces the attempt, loads and announces the success, or raises; the device logs
  what is raised and raises it again. The dictionary is not a path: loading it raises.
\<close>

definition load_image ::
  "env \<Rightarrow> device \<Rightarrow> pathlike \<Rightarrow> bool \<Rightarrow> event list \<times> (pyerror + image)" where
  "load_image E d p vb =
     (case p of
        Dict_object \<Rightarrow>
          (image_log vb (Attempting_to_load_image p) INFO @ log d (Error_loading_image p) INFO,
           Inl TypeError)
      | Path s \<Rightarrow>
          (if s = [] then ([], Inr blank_image)
           else case open_image E s of
             None \<Rightarrow>
               (image_log vb (Attempting_to_load_image p) INFO @ log d (Error_loading_image p) INFO,
                Inl IOError)
           | Some img \<Rightarrow>
               (image_log vb (Attempting_to_load_image p) INFO
                  @ image_log vb (Loaded_image_successfully s) INFO,
                Inr img)))"

text \<open>The file a coloured image is written to: \<^verbatim>\<open><deviceDir>/colored/<base>_colored<ext>\<close>.\<close>

definition colored_output_path :: "string \<Rightarrow> string \<Rightarrow> string" where
  "colored_output_path dir image_path =
     (let (base, ext) = splitext image_path;
          new_filename = basename base @ ''_colored'' @ ext
      in join (join dir ''colored'') new_filename)"

text \<open>
  \<^verbatim>\<open>DeviceImage.save\<close> of an image of verbosity \<open>vb\<close>: the file is written and a
  verbose image says so, or the failure is printed.
\<close>

definition save_image :: "env \<Rightarrow> bool \<Rightarrow> string \<Rightarrow> event list" where
  "save_image E vb file_path =
     (if save_fails E file_path then [Print WARNING (Failed_to_save_image file_path)]
      else IJ_save file_path # image_log vb (Image_saved_successfully file_path) INFO)"

text \<open>
  \<^verbatim>\<open>_apply_color_to_single_image\<close>: the whole body is in a \<^verbatim>\<open>try\<close>; whatever is
  raised becomes a warning, and the colored slot is written only at the end of a body
  that ran through. \<^verbatim>\<open>apply_color\<close> raises on an image that is not loaded, which is
  the image of the empty path.
\<close>

definition apply_color_to_single_image ::
  "env \<Rightarrow> device \<Rightarrow> string \<Rightarrow> string \<Rightarrow> pathlike \<Rightarrow> bool \<Rightarrow> device res" where
  "apply_color_to_single_image E d img_type color image_path show_colored =
     (case load_image E d image_path (verbose d) of
        (o1, Inl e) \<Rightarrow> (d, o1 @ log d (Error_applying_color image_path) WARNING, None)
      | (o1, Inr img) \<Rightarrow>
          (case image_path of
             Dict_object \<Rightarrow> (d, o1 @ log d (Error_applying_color image_path) WARNING, None)
           | Path p \<Rightarrow>
               (if p = [] \<or> apply_color_raises E color p
                then (d, o1 @ log d (Error_applying_color image_path) WARNING, None)
                else case deviceDir d of
                  None \<Rightarrow> (d, o1 @ log d (Error_applying_color image_path) WARNING, None)
                | Some dir \<Rightarrow>
                    (if makedirs_raises E (join dir ''colored'')
                     then (d, o1 @ log d (Error_applying_color image_path) WARNING, None)
                     else
                       (let output_path = colored_output_path dir p;
                            o2 = save_image E (verbose d) output_path;
                            o3 = (if show_colored then [Show_image output_path] else []);
                            o4 = log d (Saved_colored_image_at output_path) INFO
                        in case set_colored_image_path E d img_type output_path of
                             (d1, o5, _) \<Rightarrow> (d1, o1 @ o2 @ o3 @ o4 @ o5, None))))))"

fun apply_color_to_paths ::
  "env \<Rightarrow> device \<Rightarrow> string \<Rightarrow> string \<Rightarrow> pathlike list \<Rightarrow> bool \<Rightarrow> device res" where
  "apply_color_to_paths E d img_type color [] show_colored = (d, [], None)"
| "apply_color_to_paths E d img_type color (image_path # rest) show_colored =
     (case apply_color_to_single_image E d img_type color image_path show_colored of
        (d1, o1, _) \<Rightarrow>
          (case apply_color_to_paths E d1 img_type color rest show_colored of
             (d2, o2, x) \<Rightarrow> (d2, o1 @ o2, x)))"

text \<open>
  What \<^verbatim>\<open>get_image_paths(img_type)\<close> gives the colouring loop, after the emptiness
  test and the wrapping of a value that is not a list: for the empty type name the
  getter returns the dictionary itself; a missing key reads as the empty list.
\<close>

definition color_items :: "device \<Rightarrow> string \<Rightarrow> pathlike list" where
  "color_items d img_type =
     (if img_type = [] then (if dom (image_paths d) = {} then [] else [Dict_object])
      else case image_paths d img_type of
             Some (PList xs) \<Rightarrow> map Path xs
           | Some (PStr s) \<Rightarrow> (if s = [] then [] else [Path s])
           | _ \<Rightarrow> [])"

text \<open>The body of the loop of \<^verbatim>\<open>apply_color_to_images\<close> for one type and its colour.\<close>

definition color_type :: "env \<Rightarrow> device \<Rightarrow> string \<Rightarrow> string \<Rightarrow> bool \<Rightarrow> device res" where
  "color_type E d img_type color show_colored =
     (if color_items d img_type = []
      then (d, log d (No_image_paths_found (name d) img_type) INFO, None)
      else apply_color_to_paths E d img_type color (color_items d img_type) show_colored)"

fun apply_color_to_types ::
  "env \<Rightarrow> device \<Rightarrow> (string \<times> string) list \<Rightarrow> bool \<Rightarrow> device res" where
  "apply_color_to_types E d [] show_colored = (d, [], None)"
| "apply_color_to_types E d ((img_type, color) # rest) show_colored =
     (case color_type E d img_type color show_colored of
        (d1, o1, _) \<Rightarrow>
          (case apply_color_to_types E d1 rest show_colored of
             (d2, o2, x) \<Rightarrow> (d2, o1 @ o2, x)))"

text \<open>\<^verbatim>\<open>zip\<close> stops at the shorter of the two lists.\<close>

definition apply_color_to_images :: "env \<Rightarrow> device \<Rightarrow> string list \<Rightarrow> bool \<Rightarrow> device res" where
  "apply_color_to_images E d typeColors show_colored =
     apply_color_to_types E d (zip (typeNames d) typeColors) show_colored"

text \<open>
  \<open>colorizes E dir color p\<close>: the body of the \<^verbatim>\<open>try\<close> of
  \<^verbatim>\<open>_apply_color_to_single_image\<close> runs through for the image at \<open>p\<close>, in a device
  whose directory is \<open>dir\<close>.
\<close>

definition colorizes :: "env \<Rightarrow> string option \<Rightarrow> string \<Rightarrow> string \<Rightarrow> bool" where
  "colorizes E dir color p =
     (p \<noteq> [] \<and> open_image E p \<noteq> None \<and> \<not> apply_color_raises E color p \<and>
      (case dir of None \<Rightarrow> False | Some dr \<Rightarrow> \<not> makedirs_raises E (join dr ''colored'')))"

text \<open>
  The paths that the loop colours for a type: none for the empty type name, for which
  the getter returns the dictionary.
\<close>

definition pass_paths :: "device \<Rightarrow> string \<Rightarrow> string list" where
  "pass_paths d t =
     (if t = [] then []
      else case image_paths d t of
             Some (PList xs) \<Rightarrow> xs
           | Some (PStr s) \<Rightarrow> (if s = [] then [] else [s])
           | _ \<Rightarrow> [])"

text \<open>
  The colored slot of a type, from the slot \<open>old\<close>, after the images \<open>qs\<close> have been
  colourized in this order by a device of directory \<open>dir\<close>: an entry that is not in the
  dictionary is not made, and each image writes its output path over the slot.
\<close>

definition slot_from ::
  "env \<Rightarrow> string option \<Rightarrow> string option option \<Rightarrow> string list \<Rightarrow> string option option" where
  "slot_from E dir old qs =
     (if old = None \<or> qs = [] then old
      else Some (Some (abspath E (colored_output_path (the dir) (last qs)))))"

text \<open>
  The images of a type that a call of \<^verbatim>\<open>apply_color_to_images\<close> colourizes, in the
  order of the call: the loop pairs the type names with the colours, and goes through
  the images of the type once for every pair that names it.
\<close>

definition colorized_of :: "env \<Rightarrow> device \<Rightarrow> (string \<times> string) list \<Rightarrow> string \<Rightarrow> string list" where
  "colorized_of E d pairs ty =
     concat (map (\<lambda>(img_type, color).
                    if img_type = ty
                    then filter (colorizes E (deviceDir d) color) (pass_paths d ty) else [])
               pairs)"

definition colorized :: "env \<Rightarrow> device \<Rightarrow> string list \<Rightarrow> string \<Rightarrow> string list" where
  "colorized E d typeColors ty = colorized_of E d (zip (typeNames d) typeColors) ty"

subsection \<open>Device: merging\<close>

text \<open>
  The collection loop of \<^verbatim>\<open>merge_images\<close>: for every type name the colored slot, wrapped
  in a list, with the falsy entries dropped. For the empty type name the getter returns
  the dictionary itself.
\<close>

definition colored_items :: "device \<Rightarrow> pathlike list" where
  "colored_items d =
     concat (map (\<lambda>img_type.
        if img_type = [] then (if dom (colored_image_paths d) = {} then [] else [Dict_object])
        else case colored_image_paths d img_type of
               Some (Some p) \<Rightarrow> (if p = [] then [] else [Path p])
             | _ \<Rightarrow> []) (typeNames d))"

text \<open>\<^verbatim>\<open>[self._load_image(path) for path in ...]\<close>, with the default verbosity: the
  first failure ends the loop.\<close>

fun load_images :: "env \<Rightarrow> device \<Rightarrow> pathlike list \<Rightarrow> event list \<times> (pyerror + image list)" where
  "load_images E d [] = ([], Inr [])"
| "load_images E d (p # ps) =
     (case load_image E d p False of
        (o1, Inl e) \<Rightarrow> (o1, Inl e)
      | (o1, Inr img) \<Rightarrow>
          (case load_images E d ps of
             (o2, Inl e) \<Rightarrow> (o1 @ o2, Inl e)
           | (o2, Inr imgs) \<Rightarrow> (o1 @ o2, Inr (img # imgs))))"

text \<open>\<^verbatim>\<open>_crop_to_smallest_dimensions\<close>: every image is cropped from its top left corner.\<close>

definition crop_to_smallest_dimensions ::
  "device \<Rightarrow> image list \<Rightarrow> event list \<times> (pyerror + image list)" where
  "crop_to_smallest_dimensions d images =
     (if images = [] then ([], Inl ValueError)
      else
        (let min_width = min_list (map width images);
             min_height = min_list (map height images)
         in (log d (Cropping_all_images min_width min_height) INFO,
             Inr (map (\<lambda>img. crop_roi img 0 0 min_width min_height) images))))"

text \<open>
  An \<^verbatim>\<open>ImageStack\<close>: its dimensions and its slices. \<^verbatim>\<open>addSlice\<close> refuses a slice of
  other dimensions.
\<close>

record stack =
  stack_width :: nat
  stack_height :: nat
  slices :: "image list"

fun add_slices :: "stack \<Rightarrow> image list \<Rightarrow> pyerror + stack" where
  "add_slices st [] = Inr st"
| "add_slices st (img # imgs) =
     (if width img = stack_width st \<and> height img = stack_height st
      then add_slices (st\<lparr>slices := slices st @ [img]\<rparr>) imgs
      else Inl IllegalArgumentException)"

text \<open>
  The first half of \<^verbatim>\<open>_merge_images\<close>: the images as they are when they all have the
  dimensions of the first one, cropped otherwise.
\<close>

definition harmonize :: "device \<Rightarrow> image list \<Rightarrow> event list \<times> (pyerror + image list)" where
  "harmonize d images =
     (if images = [] then ([], Inl ValueError)
      else
        (let first_width = width (hd images); first_height = height (hd images) in
         if list_all (\<lambda>img. width img = first_width \<and> height img = first_height) images
         then (log d (All_images_same_dimensions first_width first_height) INFO, Inr images)
         else crop_to_smallest_dimensions d images))"

text \<open>The stack that is projected: as wide and as high as the first image after harmonizing.\<close>

definition build_stack :: "device \<Rightarrow> image list \<Rightarrow> event list \<times> (pyerror + stack)" where
  "build_stack d images =
     (case harmonize d images of
        (o1, Inl e) \<Rightarrow> (o1, Inl e)
      | (o1, Inr imgs) \<Rightarrow>
          (o1, add_slices \<lparr>stack_width = width (hd imgs), stack_height = height (hd imgs),
                           slices = []\<rparr> imgs))"

fun join_titles :: "string list \<Rightarrow> string" where
  "join_titles [] = []"
| "join_titles [t] = t"
| "join_titles (t # ts) = t @ ''_'' @ join_titles ts"

text \<open>\<^verbatim>\<open>_merge_images\<close>.\<close>

definition merge_image_list :: "env \<Rightarrow> device \<Rightarrow> image list \<Rightarrow> event list \<times> (pyerror + image)" where
  "merge_image_list E d images =
     (case build_stack d images of
        (o1, Inl e) \<Rightarrow> (o1, Inl e)
      | (o1, Inr st) \<Rightarrow>
          (o1, Inr \<lparr>title = join_titles (map title (slices st)) @ ''_merged'',
                    width = stack_width st, height = stack_height st,
                    pixel = zproject E (slices st)\<rparr>))"

definition str_of_name :: "string option \<Rightarrow> string" where
  "str_of_name nm = (case nm of None \<Rightarrow> ''None'' | Some n \<Rightarrow> n)"

text \<open>
  \<^verbatim>\<open>merge_images\<close>: what the call writes. The body is in a \<^verbatim>\<open>try\<close>, and whatever
  is raised in it becomes a warning.
\<close>

definition merge_images_out :: "env \<Rightarrow> device \<Rightarrow> bool \<Rightarrow> event list" where
  "merge_images_out E d show_merged =
     (let all_colored_image_paths = colored_items d in
      if all_colored_image_paths \<noteq> [] then
        (let o0 = log d (Colored_image_paths_to_merge all_colored_image_paths) INFO in
         case load_images E d all_colored_image_paths of
           (o1, Inl e) \<Rightarrow> o0 @ o1 @ log d (Error_merging_images (name d)) WARNING
         | (o1, Inr images) \<Rightarrow>
             (let o2 = log d (Loaded_images_for_merging (length images)) INFO in
              case merge_image_list E d images of
                (o3, Inl e) \<Rightarrow> o0 @ o1 @ o2 @ o3 @ log d (Error_merging_images (name d)) WARNING
              | (o3, Inr merged_image) \<Rightarrow>
                  (case deviceDir d of
                     None \<Rightarrow> o0 @ o1 @ o2 @ o3 @ log d (Error_merging_images (name d)) WARNING
                   | Some dir \<Rightarrow>
                       (if makedirs_raises E (join dir ''merged'')
                        then o0 @ o1 @ o2 @ o3 @ log d (Error_merging_images (name d)) WARNING
                        else
                          (let output_path =
                                 join (join dir ''merged'') (str_of_name (name d) @ ''_merged.tif'');
                               o4 = save_image E False output_path;
                               o5 = log d (Merged_image_saved (name d)) INFO;
                               o6 = (if show_merged then [Show_image output_path] else [])
                           in o0 @ o1 @ o2 @ o3 @ o4 @ o5 @ o6)))))
      else log d (No_colored_images_found (name d)) INFO)"

text \<open>
  \<^verbatim>\<open>merge_images\<close>: no statement of the method or of the helpers it calls assigns to
  the device, and the \<^verbatim>\<open>except\<close> clause lets nothing out.
\<close>

definition merge_images :: "env \<Rightarrow> device \<Rightarrow> bool \<Rightarrow> device res" where
  "merge_images E d show_merged = (d, merge_images_out E d show_merged, None)"

subsection \<open>Natural sort key\<close>

text \<open>
  A character is a code point below 256. \<open>is_digit\<close> is the class \<^verbatim>\<open>[0-9]\<close> of the
  regular expression. \<^verbatim>\<open>str.lower\<close> maps the capital letters, which are \<open>A\<close> to \<open>Z\<close> and
  the code points 192 to 222 without the multiplication sign 215, to the letters 32
  places further. \<^verbatim>\<open>str.isdigit\<close> also accepts the superscript digits at 178, 179 and
  185, which \<^verbatim>\<open>int\<close> refuses.
\<close>

definition is_digit :: "char \<Rightarrow> bool" where
  "is_digit c = (CHR ''0'' \<le> c \<and> c \<le> CHR ''9'')"

definition lower_char :: "char \<Rightarrow> char" where
  "lower_char c =
     (if (CHR ''A'' \<le> c \<and> c \<le> CHR ''Z'')
         \<or> ((192::nat) \<le> of_char c \<and> of_char c \<le> (222::nat) \<and> of_char c \<noteq> (215::nat))
      then char_of (of_char c + (32::nat)) else c)"

definition isdigit_char :: "char \<Rightarrow> bool" where
  "isdigit_char c =
     (is_digit c \<or> of_char c = (178::nat) \<or> of_char c = (179::nat) \<or> of_char c = (185::nat))"

definition lower :: "string \<Rightarrow> string" where
  "lower s = map lower_char s"

text \<open>
  \<^verbatim>\<open>re.split(r'([0-9]+)', s)\<close>: the string is cut at its maximal runs of digits, and
  the runs are kept. The result alternates text without digits and runs of digits; it
  starts and ends with text, which may be empty. \<open>split_runs cur in_digits cs\<close> scans
  \<open>cs\<close> with the piece \<open>cur\<close> under construction.
\<close>

fun split_runs :: "string \<Rightarrow> bool \<Rightarrow> string \<Rightarrow> string list" where
  "split_runs cur in_digits [] = (if in_digits then [cur, []] else [cur])"
| "split_runs cur in_digits (c # cs) =
     (if is_digit c = in_digits then split_runs (cur @ [c]) in_digits cs
      else cur # split_runs [c] (\<not> in_digits) cs)"

definition re_split_digits :: "string \<Rightarrow> string list" where
  "re_split_digits s = split_runs [] False s"

definition isdigit :: "string \<Rightarrow> bool" where
  "isdigit text = (text \<noteq> [] \<and> list_all isdigit_char text)"

definition int_of_digits :: "string \<Rightarrow> nat" where
  "int_of_digits text = foldl (\<lambda>n c. 10 * n + (of_char c - 48)) 0 text"

text \<open>
  An element of a sort key is a number or a lower-cased text. Numbers compare by value
  and texts as Python strings do, character by character; a number is below a text.
\<close>

datatype key_elem = KInt nat | KStr string

instantiation key_elem :: linorder
begin

fun less_eq_key_elem :: "key_elem \<Rightarrow> key_elem \<Rightarrow> bool" where
  "less_eq_key_elem (KInt a) (KInt b) = (a \<le> b)"
| "less_eq_key_elem (KInt a) (KStr t) = True"
| "less_eq_key_elem (KStr s) (KInt b) = False"
| "less_eq_key_elem (KStr s) (KStr t) = (s \<le> t)"

definition less_key_elem :: "key_elem \<Rightarrow> key_elem \<Rightarrow> bool" where
  "less_key_elem x y = (x \<le> y \<and> \<not> y \<le> x)"

instance
proof
  fix x y z :: key_elem
  show "(x < y) = (x \<le> y \<and> \<not> y \<le> x)"
    by (simp add: less_key_elem_def)
  show "x \<le> x"
    by (cases x) simp_all
  show "x \<le> y \<Longrightarrow> y \<le> z \<Longrightarrow> x \<le> z"
    by (cases x; cases y; cases z) auto
  show "x \<le> y \<Longrightarrow> y \<le> x \<Longrightarrow> x = y"
    by (cases x; cases y) auto
  show "x \<le> y \<or> y \<le> x"
    by (cases x; cases y) auto
qed

end

text \<open>
  \<^verbatim>\<open>int(text) if text.isdigit() else text.lower()\<close>: \<^verbatim>\<open>int\<close> raises \<^verbatim>\<open>ValueError\<close>
  on a text that \<^verbatim>\<open>isdigit\<close> accepts and that is not made of the digits 0 to 9.
\<close>

definition key_of_text :: "string \<Rightarrow> pyerror + key_elem" where
  "key_of_text text =
     (if isdigit text
      then (if list_all is_digit text then Inr (KInt (int_of_digits text)) else Inl ValueError)
      else Inr (KStr (lower text)))"

text \<open>A list comprehension over results: the first failure is raised.\<close>

fun collect :: "(pyerror + 'a) list \<Rightarrow> pyerror + 'a list" where
  "collect [] = Inr []"
| "collect (x # xs) =
     (case x of
        Inl e \<Rightarrow> Inl e
      | Inr v \<Rightarrow> (case collect xs of Inl e \<Rightarrow> Inl e | Inr vs \<Rightarrow> Inr (v # vs)))"

text \<open>\<^verbatim>\<open>_natural_sort_key\<close>. Python compares the keys, which are lists, lexicographically.\<close>

definition natural_sort_key :: "string \<Rightarrow> pyerror + key_elem list" where
  "natural_sort_key s = collect (map key_of_text (re_split_digits s))"

text \<open>\<^verbatim>\<open>_is_valid_format\<close>: what follows the last dot, or the whole name if there is none.\<close>

definition is_valid_format :: "string \<Rightarrow> string list \<Rightarrow> bool" where
  "is_valid_format file_name formats =
     (lower (rev (takeWhile (\<lambda>c. c \<noteq> CHR ''.'') (rev file_name))) \<in> set formats)"

text \<open>
  \<^verbatim>\<open>_get_sorted_image_files\<close>. \<^verbatim>\<open>sorted\<close> computes the key of every element first, so
  a key that raises ends the call; it is stable, as \<^const>\<open>sort_key\<close> is.
\<close>

definition get_sorted_image_files ::
  "string \<Rightarrow> string list \<Rightarrow> string list \<Rightarrow> pyerror + string list" where
  "get_sorted_image_files root files formats =
     (let image_files =
            map (\<lambda>file. join root file) (filter (\<lambda>file. is_valid_format file formats) files)
      in case collect (map natural_sort_key image_files) of
           Inl e \<Rightarrow> Inl e
         | Inr keys \<Rightarrow> Inr (map snd (sort_key fst (zip keys image_files))))"

subsection \<open>DeviceManager\<close>

text \<open>
  The options the model reads, with the default of each \<^verbatim>\<open>options.get\<close> already
  applied (\<^verbatim>\<open>process_subdirectories\<close> defaults to true, the others to false). The
  saturation is handed to the imaging library unread.
\<close>

record options =
  process_subdirectories :: bool
  confirm_image_types :: bool
  color :: bool
  merge :: bool
  show_colored :: bool
  show_merged :: bool

text \<open>
  \<^verbatim>\<open>devices\<close> holds the device objects. \<^verbatim>\<open>device_dict\<close> refers to the same objects: a
  reference is the position of the device in \<^verbatim>\<open>devices\<close>, which only grows.
\<close>

record manager =
  devices :: "device list"
  device_dict :: "string \<rightharpoonup> nat"
  options :: options
  rootDir :: string
  numTypes :: int
  m_typeNames :: "string list"
  typeColors :: "string list"
  m_verbose :: bool

definition default_options :: options where
  "default_options =
     \<lparr>process_subdirectories = True, confirm_image_types = False, color = False, merge = False,
      show_colored = False, show_merged = False\<rparr>"

definition DeviceManager_init ::
  "env \<Rightarrow> string \<Rightarrow> int \<Rightarrow> string list \<Rightarrow> string list \<Rightarrow> bool \<Rightarrow> options option \<Rightarrow> manager" where
  "DeviceManager_init E root n tns colors vb opts =
     \<lparr>devices = [], device_dict = Map.empty,
      options = (case opts of None \<Rightarrow> default_options | Some os \<Rightarrow> os),
      rootDir = (if root \<noteq> [] then abspath E root else []),
      numTypes = n,
      m_typeNames = (if tns \<noteq> [] then tns else [''Type 1'']),
      typeColors = (if colors \<noteq> [] then colors else [''Red'']),
      m_verbose = vb\<rparr>"

text \<open>\<^verbatim>\<open>DeviceManager.log\<close>: a \<^verbatim>\<open>WARNING\<close> is printed, an \<^verbatim>\<open>INFO\<close> only when verbose.\<close>

definition manager_log :: "manager \<Rightarrow> msg \<Rightarrow> level \<Rightarrow> event list" where
  "manager_log m message lvl =
     (if lvl = WARNING then [Print WARNING message]
      else if m_verbose m \<and> lvl = INFO then [Print INFO message]
      else [])"

definition add_device :: "manager \<Rightarrow> string \<Rightarrow> string \<Rightarrow> bool \<Rightarrow> manager \<times> event list" where
  "add_device m device_name device_dir vb =
     (let device = Device_init (m_typeNames m) (Some device_name) (Some device_dir) vb;
          m1 = m\<lparr>devices := devices m @ [device],
                 device_dict := (device_dict m)(device_name \<mapsto> length (devices m))\<rparr>
      in (m1, manager_log m1 (Added_device device_name) INFO))"

text \<open>Indexing a Python list: a negative index counts from the end.\<close>

definition py_index :: "'a list \<Rightarrow> int \<Rightarrow> pyerror + 'a" where
  "py_index xs i =
     (let n = int (length xs) in
      if 0 \<le> i \<and> i < n then Inr (xs ! nat i)
      else if - n \<le> i \<and> i < 0 then Inr (xs ! nat (n + i))
      else Inl IndexError)"

text \<open>\<^verbatim>\<open>str\<close> of a natural number.\<close>

definition digit_char :: "nat \<Rightarrow> char" where
  "digit_char n = char_of (48 + n)"

function str_nat :: "nat \<Rightarrow> string" where
  "str_nat n = (if n < 10 then [digit_char n] else str_nat (n div 10) @ [digit_char (n mod 10)])"
  by pat_completeness auto
termination
  by (relation "measure (\<lambda>n. n)") auto

text \<open>
  The inner loop of \<^verbatim>\<open>walk_directory_and_add_images\<close> over
  \<^verbatim>\<open>enumerate(self.typeNames)\<close>, on the device that \<open>ref\<close> refers to.
\<close>

fun assign_types ::
  "env \<Rightarrow> manager \<Rightarrow> string list \<Rightarrow> nat \<Rightarrow> nat \<Rightarrow> (nat \<times> string) list \<Rightarrow> manager res" where
  "assign_types E m image_files ref device_idx [] = (m, [], None)"
| "assign_types E m image_files ref device_idx ((type_idx, img_type) # rest) =
     (let img_index = int device_idx * numTypes m + int type_idx in
      if img_index < int (length image_files) then
        (case py_index image_files img_index of
           Inl e \<Rightarrow> (m, [], Some e)
         | Inr img_file \<Rightarrow>
             (case set_image_paths E (devices m ! ref) (Some img_type) (Some img_file) None of
                (d1, o1, Some e) \<Rightarrow> (m\<lparr>devices := (devices m)[ref := d1]\<rparr>, o1, Some e)
              | (d1, o1, None) \<Rightarrow>
                  (case assign_types E (m\<lparr>devices := (devices m)[ref := d1]\<rparr>)
                          image_files ref device_idx rest of
                     (m2, o2, x) \<Rightarrow> (m2, o1 @ o2, x))))
      else assign_types E m image_files ref device_idx rest)"

text \<open>The outer loop, over \<^verbatim>\<open>range(num_devices)\<close>.\<close>

fun assign_devices :: "env \<Rightarrow> manager \<Rightarrow> string list \<Rightarrow> nat list \<Rightarrow> manager res" where
  "assign_devices E m image_files [] = (m, [], None)"
| "assign_devices E m image_files (device_idx # rest) =
     (let device_name = ''Device_'' @ str_nat (device_idx + 1) in
      case py_index image_files (int device_idx * numTypes m) of
        Inl e \<Rightarrow> (m, [], Some e)
      | Inr first_file \<Rightarrow>
          (case add_device m device_name (dirname first_file) (m_verbose m) of
             (m1, o1) \<Rightarrow>
               (case device_dict m1 device_name of
                  None \<Rightarrow> (m1, o1, Some KeyError)
                | Some ref \<Rightarrow>
                    (case assign_types E m1 image_files ref device_idx
                            (enumerate 0 (m_typeNames m1)) of
                       (m2, o2, Some e) \<Rightarrow> (m2, o1 @ o2, Some e)
                     | (m2, o2, None) \<Rightarrow>
                         (case assign_devices E m2 image_files rest of
                            (m3, o3, x) \<Rightarrow> (m3, o1 @ o2 @ o3, x))))))"

text \<open>
  \<^verbatim>\<open>walk_directory_and_add_images\<close> from \<^verbatim>\<open>num_images = len(image_files)\<close> on: the
  grouping of the scanned files. \<^verbatim>\<open>%\<close> by zero raises; a remainder ends the call
  after a message at the default level \<^verbatim>\<open>INFO\<close>.
\<close>

definition group_images :: "env \<Rightarrow> manager \<Rightarrow> string list \<Rightarrow> manager res" where
  "group_images E m image_files =
     (let num_images = int (length image_files) in
      if numTypes m = 0 then (m, [], Some ZeroDivisionError)
      else if num_images mod numTypes m \<noteq> 0
      then (m, manager_log m Warning_not_a_multiple INFO, None)
      else
        (let num_devices = num_images div numTypes m in
         case assign_devices E m image_files [0..<nat num_devices] of
           (m1, o1, Some e) \<Rightarrow> (m1, o1, Some e)
         | (m1, o1, None) \<Rightarrow>
             (m1, o1 @ manager_log m1 (Assigned_images_to_devices num_devices) INFO, None)))"

text \<open>
  A directory as \<^verbatim>\<open>os.walk\<close> sees it: the names of its files and its subdirectories.
  The walk is top-down: a directory is reported before the subdirectories that the
  caller has left in \<^verbatim>\<open>dirs\<close>, which are walked in order.
\<close>

datatype fsdir = Dir "string list" "(string \<times> fsdir) list"

fun walk_dir ::
    "manager \<Rightarrow> string list \<Rightarrow> string \<Rightarrow> fsdir \<Rightarrow> string list \<times> event list \<times> pyerror option"
  and walk_subdirs ::
    "manager \<Rightarrow> string list \<Rightarrow> string \<Rightarrow> (string \<times> fsdir) list
       \<Rightarrow> string list \<times> event list \<times> pyerror option" where
  "walk_dir m formats root (Dir files subdirs) =
     (let o1 = (if process_subdirectories (options m)
                then manager_log m (Walking_directory_and_subdirectories root) INFO
                else manager_log m (Walking_directory root) INFO)
      in case get_sorted_image_files root files formats of
           Inl e \<Rightarrow> ([], o1, Some e)
         | Inr here \<Rightarrow>
             (case walk_subdirs m formats root subdirs of
                (below, o2, x) \<Rightarrow> (here @ below, o1 @ o2, x)))"
| "walk_subdirs m formats root [] = ([], [], None)"
| "walk_subdirs m formats root ((d, sub) # rest) =
     (case (if process_subdirectories (options m) \<and> d \<notin> set [''colored'', ''merged'']
            then walk_dir m formats (join root d) sub else ([], [], None)) of
        (fs1, o1, Some e) \<Rightarrow> (fs1, o1, Some e)
      | (fs1, o1, None) \<Rightarrow>
          (case walk_subdirs m formats root rest of
             (fs2, o2, x) \<Rightarrow> (fs1 @ fs2, o1 @ o2, x)))"

text \<open>
  The first half of \<^verbatim>\<open>walk_directory_and_add_images(formats=None)\<close>: the files
  gathered by the walk of the directory tree found at \<^verbatim>\<open>rootDir\<close>, the lines logged
  on the way, and what a sort raised. \<^verbatim>\<open>os.walk\<close> yields nothing when there is no such
  directory (\<open>None\<close>), as for the empty path.
\<close>

definition scan_images ::
  "manager \<Rightarrow> string list option \<Rightarrow> fsdir option
     \<Rightarrow> string list \<times> event list \<times> pyerror option" where
  "scan_images m formats tree =
     (let fmts = (case formats of None \<Rightarrow> [''tif'', ''tiff''] | Some fs \<Rightarrow> fs) in
      case tree of
        None \<Rightarrow> ([], [], None)
      | Some t \<Rightarrow> (if rootDir m = [] then ([], [], None) else walk_dir m fmts (rootDir m) t))"

text \<open>\<^verbatim>\<open>walk_directory_and_add_images\<close>: the scan, then the grouping.\<close>

definition walk_directory_and_add_images ::
  "env \<Rightarrow> manager \<Rightarrow> string list option \<Rightarrow> fsdir option \<Rightarrow> manager res" where
  "walk_directory_and_add_images E m formats tree =
     (case scan_images m formats tree of
        (image_files, o1, Some e) \<Rightarrow> (m, o1, Some e)
      | (image_files, o1, None) \<Rightarrow>
          (case group_images E m image_files of
             (m1, o2, x) \<Rightarrow> (m1, o1 @ o2, x)))"

text \<open>
  The confirmation stage: the reassignments of the dialog session, each loading its
  image first (\<^verbatim>\<open>ImageTypeChangerGui._update_image_type\<close>); nothing is caught.
\<close>

fun apply_reassignments ::
  "env \<Rightarrow> device \<Rightarrow> (string \<times> string \<times> string) list \<Rightarrow> device res" where
  "apply_reassignments E d [] = (d, [], None)"
| "apply_reassignments E d ((image_path, old_type, new_type) # rest) =
     (case load_image E d (Path image_path) False of
        (o1, Inl e) \<Rightarrow> (d, o1, Some e)
      | (o1, Inr img) \<Rightarrow>
          (case update_image_type d image_path old_type new_type of
             (d1, o2, Some e) \<Rightarrow> (d1, o1 @ o2, Some e)
           | (d1, o2, None) \<Rightarrow>
               (case apply_reassignments E d1 rest of
                  (d2, o3, x) \<Rightarrow> (d2, o1 @ o2 @ o3, x))))"

definition confirm_and_change_image_type :: "env \<Rightarrow> device \<Rightarrow> device res" where
  "confirm_and_change_image_type E d =
     (case dialog_session E d of
        (choices, ended) \<Rightarrow>
          (case apply_reassignments E d choices of
             (d1, o1, Some e) \<Rightarrow> (d1, o1, Some e)
           | (d1, o1, None) \<Rightarrow> (d1, o1, ended)))"

text \<open>The body of the loop of \<^verbatim>\<open>run_selected_processes\<close> for one device.\<close>

definition process_device :: "env \<Rightarrow> manager \<Rightarrow> device \<Rightarrow> device res" where
  "process_device E m d =
     (case (if confirm_image_types (options m)
            then (case confirm_and_change_image_type E d of
                    (d1, o1, x) \<Rightarrow> (d1, manager_log m (Confirming_image_types (name d)) INFO @ o1, x))
            else (d, [], None)) of
        (d1, o1, Some e) \<Rightarrow> (d1, o1, Some e)
      | (d1, o1, None) \<Rightarrow>
          (case (if color (options m)
                 then (case apply_color_to_images E d1 (typeColors m) (show_colored (options m)) of
                         (d2, o2, x) \<Rightarrow>
                           (d2, manager_log m (Applying_color_to_device (name d1)) INFO @ o2, x))
                 else (d1, [], None)) of
             (d2, o2, _) \<Rightarrow>
               (case (if merge (options m)
                      then (case merge_images E d2 (show_merged (options m)) of
                              (d3, o3, x) \<Rightarrow>
                                (d3, manager_log m (Merging_images_for_device (name d2)) INFO @ o3, x))
                      else (d2, [], None)) of
                  (d3, o3, _) \<Rightarrow> (d3, o1 @ o2 @ o3, None))))"

text \<open>The loop over \<^verbatim>\<open>self.devices\<close>: each device object is processed where it is.\<close>

fun process_devices :: "env \<Rightarrow> manager \<Rightarrow> nat list \<Rightarrow> manager res" where
  "process_devices E m [] = (m, [], None)"
| "process_devices E m (i # rest) =
     (case process_device E m (devices m ! i) of
        (d1, o1, Some e) \<Rightarrow> (m\<lparr>devices := (devices m)[i := d1]\<rparr>, o1, Some e)
      | (d1, o1, None) \<Rightarrow>
          (case process_devices E (m\<lparr>devices := (devices m)[i := d1]\<rparr>) rest of
             (m2, o2, x) \<Rightarrow> (m2, o1 @ o2, x)))"

text \<open>\<^verbatim>\<open>run_selected_processes\<close>.\<close>

definition run_selected_processes :: "env \<Rightarrow> manager \<Rightarrow> fsdir option \<Rightarrow> manager res" where
  "run_selected_processes E m tree =
     (case walk_directory_and_add_images E m None tree of
        (m1, o1, Some e) \<Rightarrow> (m1, o1, Some e)
      | (m1, o1, None) \<Rightarrow>
          (case process_devices E m1 [0..<length (devices m1)] of
             (m2, o2, Some e) \<Rightarrow> (m2, o1 @ o2, Some e)
           | (m2, o2, None) \<Rightarrow>
               (m2, o1 @ o2 @ manager_log m2 Finished_processing_all_devices INFO, None)))"

subsection \<open>The devices that grouping makes\<close>

text \<open>
  The device after the pairs \<open>(type, file)\<close> have been filed in order, each file at the
  end of the list of its type; and the device that grouping makes for the block \<open>k\<close> of
  \<open>T\<close> files. \<open>list_slots\<close>: no entry of the raw-path dictionary is a bare string.
\<close>

fun assigned :: "env \<Rightarrow> device \<Rightarrow> (string \<times> string) list \<Rightarrow> device" where
  "assigned E d [] = d"
| "assigned E d ((ty, f) # ps) =
     assigned E (d\<lparr>image_paths := (image_paths d)(ty \<mapsto> PList (raw_paths d ty @ [abspath E f]))\<rparr>)
       ps"

definition list_slots :: "device \<Rightarrow> bool" where
  "list_slots d = (\<forall>ty s. image_paths d ty \<noteq> Some (PStr s))"

definition device_of_block :: "env \<Rightarrow> manager \<Rightarrow> string list \<Rightarrow> nat \<Rightarrow> nat \<Rightarrow> device" where
  "device_of_block E m files T k =
     assigned E
       (Device_init (m_typeNames m) (Some (''Device_'' @ str_nat (k + 1)))
          (Some (dirname (files ! (k * T)))) (m_verbose m))
       (map (\<lambda>(t, ty). (ty, files ! (k * T + t))) (enumerate 0 (m_typeNames m)))"

section \<open>Example devices\<close>

text \<open>
  An outside world in which paths are already absolute, every file opens as the same
  image and nothing fails.
\<close>

definition img0 :: image where
  "img0 = \<lparr>title = [], width = 100, height = 100, pixel = (\<lambda>i j. 0)\<rparr>"

definition img_80_120 :: image where
  "img_80_120 = \<lparr>title = [], width = 80, height = 120, pixel = (\<lambda>i j. 0)\<rparr>"

definition three_images :: "image list" where
  "three_images = [img0, img0, img_80_120]"

definition env0 :: env where
  "env0 = \<lparr>abspath = id, open_image = (\<lambda>p. Some img0), apply_color_raises = (\<lambda>c p. False),
            makedirs_raises = (\<lambda>dir. False), save_fails = (\<lambda>p. False),
            zproject = (\<lambda>imgs i j. sum_list (map (\<lambda>img. pixel img i j) imgs)),
            dialog_session = (\<lambda>d. ([], None))\<rparr>"

definition dev_AB :: device where
  "dev_AB = Device_init [''A'', ''B''] (Some ''Device_1'') (Some ''/data'') False"

definition dev_A_q :: device where
  "dev_A_q = dev_AB\<lparr>image_paths := (image_paths dev_AB)(''A'' \<mapsto> PList [''/data/q.tif''])\<rparr>"

definition dev_A_two :: device where
  "dev_A_two =
     dev_AB\<lparr>image_paths :=
              (image_paths dev_AB)(''A'' \<mapsto> PList [''/data/a1.tif'', ''/data/a2.tif''])\<rparr>"



definition dev_A_three :: device where
  "dev_A_three =
     dev_AB\<lparr>image_paths :=
              (image_paths dev_AB)(''A'' \<mapsto> PList [''/data/a1.tif'', ''/data/a2.tif'', ''/data/a3.tif''])\<rparr>"

text \<open>The same outside world, except that the file \<^verbatim>\<open>/data/a3.tif\<close> cannot be read.\<close>

definition env_a3_unreadable :: env where
  "env_a3_unreadable =
     env0\<lparr>open_image := (\<lambda>p. if p = ''/data/a3.tif'' then None else Some img0)\<rparr>"

definition dev_A_pp :: device where
  "dev_A_pp =
     dev_AB\<lparr>image_paths := (image_paths dev_AB)(''A'' \<mapsto> PList [''/data/p.tif'', ''/data/p.tif''])\<rparr>"

text \<open>
  Managers as constructed, quiet, with two types or with one type whose name is blank,
  and a verbose one with two types.
\<close>

definition man_AB :: manager where
  "man_AB = DeviceManager_init env0 ''/data'' 2 [''A'', ''B''] [''Red'', ''Green''] False None"

definition man_AB_verbose :: manager where
  "man_AB_verbose =
     DeviceManager_init env0 ''/data'' 2 [''A'', ''B''] [''Red'', ''Green''] True None"

definition man_blank :: manager where
  "man_blank = DeviceManager_init env0 ''/data'' 1 [[]] [''Red''] False None"

text \<open>
  The quiet manager with two types, holding the device \<open>dev_A_two\<close> (as after
  \<^verbatim>\<open>add_device\<close> and two calls of \<^verbatim>\<open>set_image_paths\<close>), with colouring selected.
\<close>

definition man_AB_holding :: manager where
  "man_AB_holding =
     man_AB\<lparr>devices := [dev_A_two], device_dict := [''Device_1'' \<mapsto> 0],
            options := default_options\<lparr>color := True\<rparr>\<rparr>"


section \<open>Type reassignment\<close>

lemma add_to_new_list:
  assumes "\<forall>s. image_paths d new_type \<noteq> Some (PStr s)"
  shows "add_to_new d p new_type =
     (d\<lparr>image_paths := (image_paths d)(new_type \<mapsto> PList (raw_paths d new_type @ [p]))\<rparr>, [], None)"
  using assms
  by (auto simp: add_to_new_def raw_paths_def Let_def split: option.splits pval.splits)




text \<open>
  Claim C3, as stated: after reassigning a path that is in the old type's list, the path
  is no longer in that list. It fails when the list holds the path twice:
  \<^verbatim>\<open>list.remove\<close> deletes one occurrence.
\<close>

theorem update_image_type_keeps_second_occurrence:
  "''/data/p.tif'' \<in> set (raw_paths dev_A_pp ''A'') \<and>
   ''/data/p.tif'' \<in>
     set (raw_paths (res_state (update_image_type dev_A_pp ''/data/p.tif'' ''A'' ''B'')) ''A'')"
  by (simp add: raw_paths_def dev_A_pp_def dev_AB_def Device_init_def update_image_type_def
      remove_from_old_def add_to_new_def res_state_def Let_def)

text \<open>
  Claim C3, amended: when the path is in the list of \<open>A\<close>, \<open>B\<close> is another type and the
  entry of \<open>B\<close> is a list, \<^verbatim>\<open>None\<close> or missing, the call raises nothing, deletes the
  first occurrence of the path from the list of \<open>A\<close>, appends the path at the end of the
  list of \<open>B\<close> and leaves every other entry as it was. So the path is the last element
  of the list of \<open>B\<close>; it has left the list of \<open>A\<close> if it was there once; and it is then in
  the list of \<open>B\<close> only, if no third type held it.
\<close>

theorem update_image_type_moves_path:
  assumes "image_paths d A = Some (PList xs)" and "p \<in> set xs" and "B \<noteq> A"
    and "\<forall>s. image_paths d B \<noteq> Some (PStr s)"
  shows "res_exc (update_image_type d p A B) = None \<and>
     raw_paths (res_state (update_image_type d p A B)) A = remove1 p xs \<and>
     raw_paths (res_state (update_image_type d p A B)) B = raw_paths d B @ [p] \<and>
     last (raw_paths (res_state (update_image_type d p A B)) B) = p \<and>
     (\<forall>C. C \<noteq> A \<and> C \<noteq> B \<longrightarrow>
        image_paths (res_state (update_image_type d p A B)) C = image_paths d C) \<and>
     (count_list xs p = 1 \<longrightarrow> p \<notin> set (raw_paths (res_state (update_image_type d p A B)) A)) \<and>
     (count_list xs p = 1 \<and> (\<forall>C. C \<noteq> A \<and> C \<noteq> B \<longrightarrow> p \<notin> set (raw_paths d C)) \<longrightarrow>
        (\<forall>C. p \<in> set (raw_paths (res_state (update_image_type d p A B)) C) \<longleftrightarrow> C = B))"
proof -
  let ?d = "res_state (update_image_type d p A B)"
  have st: "?d = d\<lparr>image_paths := (image_paths d)
        (A \<mapsto> (if remove1 p xs = [] then PNone else PList (remove1 p xs)),
         B \<mapsto> PList (raw_paths d B @ [p]))\<rparr>"
    and ex: "res_exc (update_image_type d p A B) = None"
    using assms
    by (auto simp: update_image_type_def remove_from_old_def add_to_new_list res_state_def
        res_exc_def raw_paths_def Let_def)
  have a: "raw_paths ?d A = remove1 p xs"
    using assms(3) by (simp add: st raw_paths_def)
  have b: "raw_paths ?d B = raw_paths d B @ [p]"
    by (simp add: st raw_paths_def)
  have c: "\<forall>C. C \<noteq> A \<and> C \<noteq> B \<longrightarrow> image_paths ?d C = image_paths d C"
    by (simp add: st)
  have once: "count_list xs p = 1 \<Longrightarrow> p \<notin> set (remove1 p xs)"
  proof (induction xs)
    case Nil
    then show ?case by simp
  next
    case (Cons x xs)
    then show ?case
      by (cases "x = p") (auto simp: count_list_0_iff)
  qed
  have e: "count_list xs p = 1 \<and> (\<forall>C. C \<noteq> A \<and> C \<noteq> B \<longrightarrow> p \<notin> set (raw_paths d C)) \<longrightarrow>
        (\<forall>C. p \<in> set (raw_paths ?d C) \<longleftrightarrow> C = B)"
  proof (intro impI allI)
    fix C
    assume h: "count_list xs p = 1 \<and> (\<forall>C. C \<noteq> A \<and> C \<noteq> B \<longrightarrow> p \<notin> set (raw_paths d C))"
    show "p \<in> set (raw_paths ?d C) \<longleftrightarrow> C = B"
    proof (cases "C = B")
      case True
      then show ?thesis by (simp add: b)
    next
      case False
      show ?thesis
      proof (cases "C = A")
        case True
        then show ?thesis using h once a assms(3) by auto
      next
        case nA: False
        have "raw_paths ?d C = raw_paths d C"
          using False nA c by (simp add: raw_paths_def)
        then show ?thesis using h False nA by simp
      qed
    qed
  qed
  show ?thesis using ex a b c once e by simp
qed

theorem update_image_type_moves_path_witness:
  "image_paths dev_A_q ''A'' = Some (PList [''/data/q.tif'']) \<and>
   ''/data/q.tif'' \<in> set [''/data/q.tif''] \<and> ''B'' \<noteq> ''A'' \<and>
   image_paths dev_A_q ''B'' = Some PNone \<and>
   count_list [''/data/q.tif''] ''/data/q.tif'' = 1 \<and>
   raw_paths (res_state (update_image_type dev_A_q ''/data/q.tif'' ''A'' ''B'')) ''A'' = [] \<and>
   raw_paths (res_state (update_image_type dev_A_q ''/data/q.tif'' ''A'' ''B'')) ''B''
     = [''/data/q.tif''] \<and>
   ''/data/q.tif'' \<notin>
     set (raw_paths (res_state (update_image_type dev_A_q ''/data/q.tif'' ''A'' ''B'')) ''A'')"
  using update_image_type_moves_path
    [of dev_A_q "''A''" "[''/data/q.tif'']" "''/data/q.tif''" "''B''"]
  by (simp add: dev_A_q_def dev_AB_def Device_init_def raw_paths_def)

section \<open>The keys of the raw-path dictionary\<close>

lemma set_image_paths_from_dict_dom:
  "dom (image_paths (set_image_paths_from_dict E d items)) = dom (image_paths d)"
proof (induction items arbitrary: d)
  case Nil
  then show ?case by simp
next
  case (Cons kv items)
  obtain k v where kv: "kv = (k, v)" by (cases kv)
  show ?case
  proof (cases "image_paths d k = None")
    case True
    then show ?thesis using Cons.IH [of d] by (simp add: kv)
  next
    case False
    define d' where "d' = d\<lparr>image_paths := (image_paths d)(k \<mapsto> PStr (abspath E v))\<rparr>"
    have step: "set_image_paths_from_dict E d (kv # items) = set_image_paths_from_dict E d' items"
      using False by (simp add: kv d'_def)
    have "dom (image_paths d') = insert k (dom (image_paths d))"
      by (simp add: d'_def)
    also have "\<dots> = dom (image_paths d)"
      using False by auto
    finally show ?thesis
      using Cons.IH [of d'] step by simp
  qed
qed

lemma set_image_path_dom:
  "dom (image_paths (fst (set_image_path E d t p))) = dom (image_paths d)"
proof (cases "image_paths d t")
  case None
  then show ?thesis by (simp add: set_image_path_def)
next
  case (Some v)
  then have "insert t (dom (image_paths d)) = dom (image_paths d)" by auto
  then show ?thesis using Some
    by (cases v) (simp_all add: set_image_path_def Let_def)
qed

lemma set_image_paths_branch_dom:
  "dom (image_paths (fst (set_image_paths_branch E d ty p ps))) =
     (if list_form ty ps then insert (the ty) (dom (image_paths d)) else dom (image_paths d))"
proof (cases ps)
  case None
  then show ?thesis
    by (simp add: set_image_paths_branch_def list_form_def set_image_path_dom)
next
  case (Some a)
  show ?thesis
  proof (cases a)
    case (Dict_arg items)
    then show ?thesis using Some
      by (simp add: set_image_paths_branch_def list_form_def set_image_path_dom
          set_image_paths_from_dict_dom)
  next
    case (List_arg xs)
    then show ?thesis using Some
      by (simp add: set_image_paths_branch_def list_form_def set_image_path_dom
          set_image_paths_from_list_def)
  qed
qed

lemma set_image_paths_state:
  "fst (set_image_paths E d ty p ps) = fst (set_image_paths_branch E d ty p ps)"
  by (simp add: set_image_paths_def split: prod.splits option.splits)

lemma set_image_paths_dom:
  "dom (image_paths (res_state (set_image_paths E d ty p ps))) =
     (if list_form ty ps then insert (the ty) (dom (image_paths d)) else dom (image_paths d))"
  unfolding res_state_def set_image_paths_state by (rule set_image_paths_branch_dom)

lemma set_image_paths_branch_not_key:
  assumes "\<not> is_key d image_type" and "\<not> list_form image_type paths"
  shows "snd (set_image_paths_branch E d image_type image_path paths) = ([], None)"
    and "\<not> dict_form paths \<Longrightarrow> fst (set_image_paths_branch E d image_type image_path paths) = d"
  using assms
  by (auto simp: set_image_paths_branch_def is_key_def list_form_def dict_form_def truthy_def
        set_image_path_def split: option.splits paths_arg.splits)

subsection \<open>Colouring changes the colored slots only\<close>

lemma single_state:
  "fst (apply_color_to_single_image E d ty col item sh) =
     (case item of
        Dict_object \<Rightarrow> d
      | Path p \<Rightarrow>
          (if colorizes E (deviceDir d) col p \<and> colored_image_paths d ty \<noteq> None
           then d\<lparr>colored_image_paths := (colored_image_paths d)
                    (ty \<mapsto> Some (abspath E (colored_output_path (the (deviceDir d)) p)))\<rparr>
           else d))"
  by (auto simp: apply_color_to_single_image_def load_image_def colorizes_def
      set_colored_image_path_def Let_def split: pathlike.splits option.splits)

lemma single_frame:
  "image_paths (fst (apply_color_to_single_image E d ty col item sh)) = image_paths d \<and>
   deviceDir (fst (apply_color_to_single_image E d ty col item sh)) = deviceDir d \<and>
   typeNames (fst (apply_color_to_single_image E d ty col item sh)) = typeNames d \<and>
   name (fst (apply_color_to_single_image E d ty col item sh)) = name d \<and>
   verbose (fst (apply_color_to_single_image E d ty col item sh)) = verbose d"
  by (simp add: single_state split: pathlike.splits)

lemma single_colored:
  "colored_image_paths (fst (apply_color_to_single_image E d ty col (Path p) sh)) =
     (if colorizes E (deviceDir d) col p \<and> colored_image_paths d ty \<noteq> None
      then (colored_image_paths d)
             (ty \<mapsto> Some (abspath E (colored_output_path (the (deviceDir d)) p)))
      else colored_image_paths d)"
  by (auto simp: single_state)

lemma paths_step:
  "fst (apply_color_to_paths E d ty col (item # items) sh) =
     fst (apply_color_to_paths E (fst (apply_color_to_single_image E d ty col item sh))
            ty col items sh)"
  by (simp split: prod.splits)

lemma paths_frame:
  "image_paths (fst (apply_color_to_paths E d ty col items sh)) = image_paths d \<and>
   deviceDir (fst (apply_color_to_paths E d ty col items sh)) = deviceDir d \<and>
   typeNames (fst (apply_color_to_paths E d ty col items sh)) = typeNames d \<and>
   name (fst (apply_color_to_paths E d ty col items sh)) = name d \<and>
   verbose (fst (apply_color_to_paths E d ty col items sh)) = verbose d"
proof (induction items arbitrary: d)
  case Nil
  then show ?case by simp
next
  case (Cons item items)
  show ?case
    unfolding paths_step
    using Cons.IH [of "fst (apply_color_to_single_image E d ty col item sh)"]
      single_frame [of E d ty col item sh]
    by simp
qed

lemma paths_colored:
  "colored_image_paths (fst (apply_color_to_paths E d ty col (map Path ps) sh)) =
     (colored_image_paths d)
       (ty := slot_from E (deviceDir d) (colored_image_paths d ty)
                (filter (colorizes E (deviceDir d) col) ps))"
proof (induction ps arbitrary: d)
  case Nil
  then show ?case by (auto simp: slot_from_def)
next
  case (Cons p ps)
  define d1 where "d1 = fst (apply_color_to_single_image E d ty col (Path p) sh)"
  have step: "fst (apply_color_to_paths E d ty col (map Path (p # ps)) sh) =
      fst (apply_color_to_paths E d1 ty col (map Path ps) sh)"
    unfolding d1_def by (simp only: list.map paths_step)
  have dir: "deviceDir d1 = deviceDir d"
    unfolding d1_def using single_frame [of E d ty col "Path p" sh] by simp
  have c1: "colored_image_paths d1 =
     (if colorizes E (deviceDir d) col p \<and> colored_image_paths d ty \<noteq> None
      then (colored_image_paths d)
             (ty \<mapsto> Some (abspath E (colored_output_path (the (deviceDir d)) p)))
      else colored_image_paths d)"
    unfolding d1_def by (rule single_colored)
  have "(colored_image_paths d1)
          (ty := slot_from E (deviceDir d1) (colored_image_paths d1 ty)
                   (filter (colorizes E (deviceDir d1) col) ps)) =
        (colored_image_paths d)
          (ty := slot_from E (deviceDir d) (colored_image_paths d ty)
                   (filter (colorizes E (deviceDir d) col) (p # ps)))"
    by (cases "filter (colorizes E (deviceDir d) col) ps")
       (auto simp: c1 dir slot_from_def)
  then show ?case
    unfolding step Cons.IH [of d1] .
qed

lemma types_step:
  "fst (apply_color_to_types E d ((t, col) # rest) sh) =
     fst (apply_color_to_types E (fst (color_type E d t col sh)) rest sh)"
  by (simp split: prod.splits)

lemma color_type_frame:
  "image_paths (fst (color_type E d t col sh)) = image_paths d \<and>
   deviceDir (fst (color_type E d t col sh)) = deviceDir d \<and>
   typeNames (fst (color_type E d t col sh)) = typeNames d \<and>
   name (fst (color_type E d t col sh)) = name d \<and>
   verbose (fst (color_type E d t col sh)) = verbose d"
  using paths_frame [of E d t col "color_items d t" sh]
  by (simp add: color_type_def)

lemma color_items_cases:
  "color_items d t = map Path (pass_paths d t) \<or>
   (color_items d t = [Dict_object] \<and> pass_paths d t = [])"
  by (auto simp: color_items_def pass_paths_def split: option.splits pval.splits)

lemma slot_from_Nil:
  "(colored_image_paths d)(t := slot_from E dir (colored_image_paths d t) []) =
     colored_image_paths d"
  by (auto simp: slot_from_def)

lemma color_type_colored:
  "colored_image_paths (fst (color_type E d t col sh)) =
     (colored_image_paths d)
       (t := slot_from E (deviceDir d) (colored_image_paths d t)
               (filter (colorizes E (deviceDir d) col) (pass_paths d t)))"
proof -
  consider (paths) "color_items d t = map Path (pass_paths d t)"
    | (dict) "color_items d t = [Dict_object]" "pass_paths d t = []"
    using color_items_cases by blast
  then show ?thesis
  proof cases
    case paths
    show ?thesis
    proof (cases "pass_paths d t = []")
      case True
      then show ?thesis using paths by (simp add: color_type_def slot_from_Nil)
    next
      case False
      then show ?thesis using paths paths_colored [of E d t col "pass_paths d t" sh]
        by (simp add: color_type_def)
    qed
  next
    case dict
    have "fst (apply_color_to_paths E d t col [Dict_object] sh) = d"
      by (simp only: paths_step) (simp add: single_state)
    then show ?thesis
      using dict by (simp add: color_type_def slot_from_Nil)
  qed
qed

lemma types_frame:
  "image_paths (fst (apply_color_to_types E d zs sh)) = image_paths d \<and>
   deviceDir (fst (apply_color_to_types E d zs sh)) = deviceDir d \<and>
   typeNames (fst (apply_color_to_types E d zs sh)) = typeNames d \<and>
   name (fst (apply_color_to_types E d zs sh)) = name d \<and>
   verbose (fst (apply_color_to_types E d zs sh)) = verbose d"
proof (induction zs arbitrary: d)
  case Nil
  then show ?case by simp
next
  case (Cons z zs)
  obtain t col where z: "z = (t, col)" by (cases z)
  show ?case
    unfolding z types_step
    using Cons.IH [of "fst (color_type E d t col sh)"] color_type_frame [of E d t col sh]
    by simp
qed

subsection \<open>Reassignment adds at most the new type\<close>

lemma remove_from_old_dom:
  "dom (image_paths (fst (remove_from_old d p old_type))) = dom (image_paths d)"
proof (cases "image_paths d old_type")
  case None
  then show ?thesis by (simp add: remove_from_old_def)
next
  case (Some v)
  then have "insert old_type (dom (image_paths d)) = dom (image_paths d)" by auto
  then show ?thesis using Some
    by (cases v) (simp_all add: remove_from_old_def Let_def)
qed

lemma add_to_new_dom:
  "dom (image_paths (fst (add_to_new d p new_type))) = insert new_type (dom (image_paths d))"
proof (cases "image_paths d new_type")
  case None
  then show ?thesis by (simp add: add_to_new_def Let_def)
next
  case (Some v)
  then have "insert new_type (dom (image_paths d)) = dom (image_paths d)" by auto
  then show ?thesis using Some
    by (cases v) (simp_all add: add_to_new_def Let_def)
qed

lemma update_image_type_state:
  "fst (update_image_type d p old_type new_type) =
     (if image_paths d old_type = None then d
      else if snd (snd (remove_from_old d p old_type)) \<noteq> None
      then fst (remove_from_old d p old_type)
      else fst (add_to_new (fst (remove_from_old d p old_type)) p new_type))"
  by (simp add: update_image_type_def split: prod.splits option.splits)

lemma update_image_type_dom:
  "dom (image_paths d) \<subseteq> dom (image_paths (fst (update_image_type d p old_type new_type))) \<and>
   dom (image_paths (fst (update_image_type d p old_type new_type)))
      \<subseteq> insert new_type (dom (image_paths d))"
  using remove_from_old_dom [of d p old_type]
    add_to_new_dom [of "fst (remove_from_old d p old_type)" p new_type]
  by (auto simp: update_image_type_state)

text \<open>
  Claim C1, as stated: no operation ever adds a key to the raw-path dictionary. It
  fails for a reassignment to a type that is not configured: the branch
  \<^verbatim>\<open>new_type not in self.image_paths\<close> of \<^verbatim>\<open>update_image_type\<close> makes the key.
\<close>

theorem update_image_type_adds_key:
  "''C'' \<notin> set (typeNames dev_A_q) \<and> image_paths dev_A_q ''C'' = None \<and>
   image_paths (res_state (update_image_type dev_A_q ''/data/q.tif'' ''A'' ''C'')) ''C''
     = Some (PList [''/data/q.tif''])"
  by (simp add: dev_A_q_def dev_AB_def Device_init_def update_image_type_def
      remove_from_old_def add_to_new_def res_state_def Let_def)

text \<open>
  Claim C1, amended: a device is constructed with exactly its type names as the keys of
  the raw-path dictionary, and no operation removes a key. \<^verbatim>\<open>set_image_paths\<close> with a
  single path or with a dictionary keeps the key set; colouring and merging leave the
  whole dictionary as it is; \<^verbatim>\<open>update_image_type\<close> adds at most the new type, and
  nothing when the new type is already a key.
\<close>

theorem type_keys_kept:
  "dom (image_paths (Device_init tns nm dir vb)) = set tns \<and>
   dom (image_paths d) \<subseteq> dom (image_paths (res_state (set_image_paths E d ty p ps))) \<and>
   (\<not> list_form ty ps \<longrightarrow>
      dom (image_paths (res_state (set_image_paths E d ty p ps))) = dom (image_paths d)) \<and>
   image_paths (res_state (apply_color_to_images E d colors sh)) = image_paths d \<and>
   image_paths (res_state (merge_images E d sh)) = image_paths d \<and>
   dom (image_paths d)
     \<subseteq> dom (image_paths (res_state (update_image_type d path old_type new_type))) \<and>
   dom (image_paths (res_state (update_image_type d path old_type new_type)))
     \<subseteq> insert new_type (dom (image_paths d)) \<and>
   (image_paths d new_type \<noteq> None \<longrightarrow>
      dom (image_paths (res_state (update_image_type d path old_type new_type)))
        = dom (image_paths d))"
proof -
  have a: "dom (image_paths (Device_init tns nm dir vb)) = set tns"
    by (simp add: Device_init_def dom_map_of_conv_image_fst image_comp)
  have s: "dom (image_paths d) \<subseteq> dom (image_paths (res_state (set_image_paths E d ty p ps)))"
    "\<not> list_form ty ps \<longrightarrow>
      dom (image_paths (res_state (set_image_paths E d ty p ps))) = dom (image_paths d)"
    using set_image_paths_dom [of E d ty p ps] by (auto split: if_splits)
  have c: "image_paths (res_state (apply_color_to_images E d colors sh)) = image_paths d"
    using types_frame [of E d "zip (typeNames d) colors" sh]
    by (simp add: apply_color_to_images_def res_state_def)
  have m: "image_paths (res_state (merge_images E d sh)) = image_paths d"
    by (simp add: res_state_def merge_images_def)
  have u: "dom (image_paths d)
       \<subseteq> dom (image_paths (res_state (update_image_type d path old_type new_type)))"
     "dom (image_paths (res_state (update_image_type d path old_type new_type)))
      \<subseteq> insert new_type (dom (image_paths d))"
    using update_image_type_dom [of d path old_type new_type] by (simp_all add: res_state_def)
  have k: "image_paths d new_type \<noteq> None \<longrightarrow>
      dom (image_paths (res_state (update_image_type d path old_type new_type)))
        = dom (image_paths d)"
    using u by auto
  show ?thesis
    using a s c m u k by blast
qed

theorem type_keys_kept_witness:
  "image_paths dev_A_q ''B'' \<noteq> None \<and>
   \<not> list_form (Some ''A'') None \<and>
   dom (image_paths (Device_init [''A'', ''B''] (Some ''Device_1'') (Some ''/data'') False))
     = {''A'', ''B''} \<and>
   dom (image_paths (res_state
          (set_image_paths env0 dev_A_q (Some ''A'') (Some ''/data/r.tif'') None)))
     = dom (image_paths dev_A_q) \<and>
   dom (image_paths (res_state (update_image_type dev_A_q ''/data/q.tif'' ''A'' ''B'')))
     = dom (image_paths dev_A_q)"
  using type_keys_kept [of "[''A'', ''B'']" "Some ''Device_1''" "Some ''/data''" False
      dev_A_q env0 "Some ''A''" "Some ''/data/r.tif''" None "[]" False
      "''/data/q.tif''" "''A''" "''B''"]
  by (simp add: list_form_def dev_A_q_def dev_AB_def Device_init_def)

section \<open>Setting a path under an unknown type\<close>

text \<open>
  Outside the list form, a call of \<^verbatim>\<open>set_image_paths\<close> with a type that is not a key
  (or with no type) raises \<^verbatim>\<open>KeyError\<close> from the log line, having logged nothing; the
  guarded helper of the single-path form leaves the device as it is.
\<close>

lemma set_image_paths_not_key_raises:
  assumes "\<not> is_key d image_type" and "\<not> list_form image_type paths"
  shows "res_exc (set_image_paths E d image_type image_path paths) = Some KeyError"
    and "res_out (set_image_paths E d image_type image_path paths) = []"
    and "\<not> dict_form paths \<Longrightarrow> res_state (set_image_paths E d image_type image_path paths) = d"
proof -
  obtain d1 where b: "set_image_paths_branch E d image_type image_path paths = (d1, [], None)"
    using set_image_paths_branch_not_key(1) [OF assms, of E image_path]
    by (cases "set_image_paths_branch E d image_type image_path paths") auto
  have "dom (image_paths d1) = dom (image_paths d)"
    using set_image_paths_branch_dom [of E d image_type image_path paths] assms(2) b by simp
  then have nk: "\<not> is_key d1 image_type"
    using assms(1) by (auto simp: is_key_def split: option.splits)
  show "res_exc (set_image_paths E d image_type image_path paths) = Some KeyError"
    using b nk by (auto simp: set_image_paths_def res_exc_def is_key_def split: option.splits)
  show "res_out (set_image_paths E d image_type image_path paths) = []"
    using b nk by (auto simp: set_image_paths_def res_out_def is_key_def split: option.splits)
  show "\<not> dict_form paths \<Longrightarrow> res_state (set_image_paths E d image_type image_path paths) = d"
    using set_image_paths_branch_not_key(2) [OF assms, of E image_path]
    by (simp add: res_state_def set_image_paths_state)
qed

text \<open>
  Claim C10: every call of \<^verbatim>\<open>set_image_paths\<close> with a type that is not a key raises
  \<^verbatim>\<open>KeyError\<close>. The call
  \<^verbatim>\<open>set_image_paths(image_type='C', image_paths=['/data/x.tif'])\<close> on a device with the
  types \<^verbatim>\<open>A\<close> and \<^verbatim>\<open>B\<close> does not: \<^verbatim>\<open>_set_image_paths_from_list\<close> assigns without the
  key test that \<^verbatim>\<open>_set_image_path\<close> and \<^verbatim>\<open>_set_image_paths_from_dict\<close> make, the type
  becomes a key, the log line finds it and the call returns. The same type with a
  single path raises \<^verbatim>\<open>KeyError\<close> and leaves the device as it is.
\<close>

theorem set_image_paths_list_form_adds_key:
  "image_paths dev_AB ''C'' = None \<and>
   res_exc (set_image_paths env0 dev_AB (Some ''C'') None (Some (List_arg [''/data/x.tif''])))
     = None \<and>
   image_paths
     (res_state (set_image_paths env0 dev_AB (Some ''C'') None (Some (List_arg [''/data/x.tif'']))))
     ''C'' = Some (PList [''/data/x.tif'']) \<and>
   set_image_paths env0 dev_AB (Some ''C'') (Some ''/data/x.tif'') None
     = (dev_AB, [], Some KeyError)"
  by (simp add: dev_AB_def Device_init_def set_image_paths_def set_image_paths_branch_def
      set_image_paths_from_list_def set_image_path_def truthy_def res_exc_def res_state_def
      env0_def)

section \<open>Colouring: the last image wins\<close>

lemma slot_from_append:
  "slot_from E dir (slot_from E dir old qs1) qs2 = slot_from E dir old (qs1 @ qs2)"
  by (simp add: slot_from_def)

lemma colorized_of_frame:
  "image_paths d1 = image_paths d \<Longrightarrow> deviceDir d1 = deviceDir d \<Longrightarrow>
   colorized_of E d1 zs ty = colorized_of E d zs ty"
proof -
  assume a: "image_paths d1 = image_paths d" "deviceDir d1 = deviceDir d"
  have pp: "pass_paths d1 ty = pass_paths d ty"
    by (simp add: pass_paths_def a)
  show ?thesis
    unfolding colorized_of_def a(2) pp by (rule refl)
qed

lemma colorized_of_Cons:
  "colorized_of E d ((t, c) # zs) ty =
     (if t = ty then filter (colorizes E (deviceDir d) c) (pass_paths d ty) else [])
       @ colorized_of E d zs ty"
  by (simp add: colorized_of_def)

lemma types_colored:
  "colored_image_paths (fst (apply_color_to_types E d zs sh)) ty =
     slot_from E (deviceDir d) (colored_image_paths d ty) (colorized_of E d zs ty)"
proof (induction zs arbitrary: d)
  case Nil
  then show ?case by (simp add: slot_from_def colorized_of_def)
next
  case (Cons z zs)
  obtain t c where z: "z = (t, c)" by (cases z)
  define d1 where "d1 = fst (color_type E d t c sh)"
  have fr: "image_paths d1 = image_paths d" "deviceDir d1 = deviceDir d"
    unfolding d1_def using color_type_frame [of E d t c sh] by simp_all
  have step:
    "fst (apply_color_to_types E d ((t, c) # zs) sh) = fst (apply_color_to_types E d1 zs sh)"
    unfolding d1_def by (rule types_step)
  have c1: "colored_image_paths d1 ty =
      slot_from E (deviceDir d) (colored_image_paths d ty)
        (if t = ty then filter (colorizes E (deviceDir d) c) (pass_paths d ty) else [])"
    unfolding d1_def by (simp add: color_type_colored slot_from_def)
  have "colored_image_paths (fst (apply_color_to_types E d1 zs sh)) ty =
      slot_from E (deviceDir d1) (colored_image_paths d1 ty) (colorized_of E d1 zs ty)"
    by (rule Cons.IH)
  also have "\<dots> = slot_from E (deviceDir d) (colored_image_paths d1 ty) (colorized_of E d zs ty)"
    using colorized_of_frame [OF fr, of E zs ty] fr(2) by simp
  also have "\<dots> = slot_from E (deviceDir d) (colored_image_paths d ty)
      (colorized_of E d ((t, c) # zs) ty)"
    unfolding c1 slot_from_append colorized_of_Cons ..
  finally show ?case unfolding z step .
qed

lemma apply_color_to_images_slot:
  "colored_image_paths (res_state (apply_color_to_images E d colors sh)) ty =
     slot_from E (deviceDir d) (colored_image_paths d ty) (colorized E d colors ty)"
  by (simp add: apply_color_to_images_def res_state_def colorized_def types_colored)

lemma filter_keeps_last:
  "ps \<noteq> [] \<Longrightarrow> P (last ps) \<Longrightarrow> filter P ps \<noteq> [] \<and> last (filter P ps) = last ps"
  by (induction ps rule: rev_induct) simp_all

lemma colorized_of_last:
  assumes "ps \<noteq> []" and "pass_paths d ty = ps"
    and "\<exists>c. (ty, c) \<in> set zs"
    and "\<forall>c. (ty, c) \<in> set zs \<longrightarrow> colorizes E (deviceDir d) c (last ps)"
  shows "colorized_of E d zs ty \<noteq> [] \<and> last (colorized_of E d zs ty) = last ps"
  using assms(3,4)
proof (induction zs rule: rev_induct)
  case Nil
  then show ?case by simp
next
  case (snoc z zs)
  obtain t c where z: "z = (t, c)" by (cases z)
  have app: "colorized_of E d (zs @ [z]) ty =
      colorized_of E d zs ty
        @ (if t = ty then filter (colorizes E (deviceDir d) c) ps else [])"
    by (simp add: colorized_of_def z assms(2))
  show ?case
  proof (cases "t = ty")
    case True
    then have "colorizes E (deviceDir d) c (last ps)" using snoc.prems(2) z by simp
    then have "filter (colorizes E (deviceDir d) c) ps \<noteq> [] \<and>
        last (filter (colorizes E (deviceDir d) c) ps) = last ps"
      using assms(1) filter_keeps_last by blast
    then show ?thesis unfolding app using True by simp
  next
    case False
    then have "\<exists>c. (ty, c) \<in> set zs" using snoc.prems(1) z by auto
    moreover have "\<forall>c. (ty, c) \<in> set zs \<longrightarrow> colorizes E (deviceDir d) c (last ps)"
      using snoc.prems(2) by simp
    ultimately have "colorized_of E d zs ty \<noteq> [] \<and> last (colorized_of E d zs ty) = last ps"
      by (rule snoc.IH)
    then show ?thesis unfolding app using False by simp
  qed
qed

text \<open>
  Claim C7, as stated: after colouring, the colored slot of a type with two or more raw
  images holds the output path of the last image of the list. It fails when the last
  image is not colourized: a file that cannot be read is caught by the \<^verbatim>\<open>try\<close> of
  \<^verbatim>\<open>_apply_color_to_single_image\<close>, which writes a warning and leaves the slot alone.
  Of the images \<^verbatim>\<open>a1\<close>, \<^verbatim>\<open>a2\<close>, \<^verbatim>\<open>a3\<close>, with \<^verbatim>\<open>a3\<close> unreadable, the slot holds the
  output path of \<^verbatim>\<open>a2\<close>.
\<close>

theorem colored_slot_skips_unreadable_last:
  "image_paths dev_A_three ''A'' =
     Some (PList [''/data/a1.tif'', ''/data/a2.tif'', ''/data/a3.tif'']) \<and>
   open_image env_a3_unreadable ''/data/a3.tif'' = None \<and>
   colored_image_paths
     (res_state (apply_color_to_images env_a3_unreadable dev_A_three [''Red'', ''Green''] False))
     ''A''
     = Some (Some ''/data/colored/a2_colored.tif'')"
  by (simp add: apply_color_to_images_slot slot_from_def colorized_def colorized_of_def
      pass_paths_def dev_A_three_def dev_AB_def Device_init_def colorizes_def
      env_a3_unreadable_def env0_def colored_output_path_def splitext_def basename_def join_def)

text \<open>
  Claim C7, amended: after \<^verbatim>\<open>apply_color_to_images\<close>, the colored slot of a type holds
  one path, the output path of the last image that the call colourized for the type,
  in the order of the call (the types as the loop pairs them with the colours, the
  images of a type in list order); an image whose colouring raises is skipped. The
  slot is as before when no image was colourized for the type, and an entry that the
  colored dictionary does not have is not made. In particular, when the type is paired
  with a colour, has a colored slot and a list of raw images, and the last image of the
  list is colourized under every colour the type is paired with, the slot holds the
  output path of that last image.
\<close>

theorem colored_slot_last_write_wins:
  "colored_image_paths (res_state (apply_color_to_images E d colors sh)) ty =
     (if colored_image_paths d ty = None \<or> colorized E d colors ty = []
      then colored_image_paths d ty
      else Some (Some (abspath E
             (colored_output_path (the (deviceDir d)) (last (colorized E d colors ty)))))) \<and>
   (ty \<noteq> [] \<and> image_paths d ty = Some (PList ps) \<and> ps \<noteq> [] \<and>
    colored_image_paths d ty \<noteq> None \<and>
    (\<exists>c. (ty, c) \<in> set (zip (typeNames d) colors)) \<and>
    (\<forall>c. (ty, c) \<in> set (zip (typeNames d) colors)
        \<longrightarrow> colorizes E (deviceDir d) c (last ps)) \<longrightarrow>
    colored_image_paths (res_state (apply_color_to_images E d colors sh)) ty =
      Some (Some (abspath E (colored_output_path (the (deviceDir d)) (last ps)))))"
proof (intro conjI impI)
  show "colored_image_paths (res_state (apply_color_to_images E d colors sh)) ty =
     (if colored_image_paths d ty = None \<or> colorized E d colors ty = []
      then colored_image_paths d ty
      else Some (Some (abspath E
             (colored_output_path (the (deviceDir d)) (last (colorized E d colors ty))))))"
    by (simp add: apply_color_to_images_slot slot_from_def)
next
  assume h: "ty \<noteq> [] \<and> image_paths d ty = Some (PList ps) \<and> ps \<noteq> [] \<and>
    colored_image_paths d ty \<noteq> None \<and>
    (\<exists>c. (ty, c) \<in> set (zip (typeNames d) colors)) \<and>
    (\<forall>c. (ty, c) \<in> set (zip (typeNames d) colors)
        \<longrightarrow> colorizes E (deviceDir d) c (last ps))"
  then have pp: "pass_paths d ty = ps" by (simp add: pass_paths_def)
  have "colorized_of E d (zip (typeNames d) colors) ty \<noteq> [] \<and>
      last (colorized_of E d (zip (typeNames d) colors) ty) = last ps"
    using colorized_of_last [OF _ pp, of "zip (typeNames d) colors" E] h by blast
  then show "colored_image_paths (res_state (apply_color_to_images E d colors sh)) ty =
      Some (Some (abspath E (colored_output_path (the (deviceDir d)) (last ps))))"
    using h by (simp add: apply_color_to_images_slot slot_from_def colorized_def)
qed

theorem colored_slot_last_write_wins_witness:
  "image_paths dev_A_two ''A'' = Some (PList [''/data/a1.tif'', ''/data/a2.tif'']) \<and>
   colored_image_paths dev_A_two ''A'' = Some None \<and>
   (''A'', ''Red'') \<in> set (zip (typeNames dev_A_two) [''Red'', ''Green'']) \<and>
   colorizes env0 (deviceDir dev_A_two) ''Red'' ''/data/a2.tif'' \<and>
   colorized env0 dev_A_two [''Red'', ''Green''] ''A'' = [''/data/a1.tif'', ''/data/a2.tif''] \<and>
   colored_image_paths
     (res_state (apply_color_to_images env0 dev_A_two [''Red'', ''Green''] False)) ''A''
     = Some (Some ''/data/colored/a2_colored.tif'')"
proof -
  have k: "image_paths dev_A_two ''A'' = Some (PList [''/data/a1.tif'', ''/data/a2.tif''])"
    "colored_image_paths dev_A_two ''A'' = Some None"
    "typeNames dev_A_two = [''A'', ''B'']" "deviceDir dev_A_two = Some ''/data''"
    by (simp_all add: dev_A_two_def dev_AB_def Device_init_def)
  have c: "\<And>col p. p \<noteq> [] \<Longrightarrow> colorizes env0 (Some ''/data'') col p"
    by (simp add: colorizes_def env0_def)
  have z: "colorized env0 dev_A_two [''Red'', ''Green''] ''A'' = [''/data/a1.tif'', ''/data/a2.tif'']"
    by (simp add: colorized_def colorized_of_def pass_paths_def k c)
  have o: "abspath env0 (colored_output_path ''/data'' ''/data/a2.tif'')
      = ''/data/colored/a2_colored.tif''"
    by (simp add: env0_def colored_output_path_def splitext_def basename_def join_def)
  show ?thesis
    using colored_slot_last_write_wins
      [of env0 dev_A_two "[''Red'', ''Green'']" False "''A''" "[''/data/a1.tif'', ''/data/a2.tif'']"]
      k c z o
    by simp
qed

section \<open>Merging: harmonizing the dimensions\<close>

lemma add_slices_same_dimensions:
  "\<forall>img \<in> set imgs. width img = stack_width st \<and> height img = stack_height st \<Longrightarrow>
   add_slices st imgs = Inr (st\<lparr>slices := slices st @ imgs\<rparr>)"
  by (induction imgs arbitrary: st) auto

lemma min_list_width:
  "images \<noteq> [] \<Longrightarrow> min_list (map width images) = Min (width ` set images)"
  using min_list_Min [of "map width images"] by simp

lemma min_list_height:
  "images \<noteq> [] \<Longrightarrow> min_list (map height images) = Min (height ` set images)"
  using min_list_Min [of "map height images"] by simp

text \<open>
  Claim C8: when the images to merge are not all as wide and as high as the first one,
  every image is cropped from its top left corner to the least width and the least
  height of the collection, the stack is built with exactly these dimensions from the
  cropped images in their order, and the merged image has these dimensions.
\<close>

theorem merge_crops_to_smallest_dimensions:
  assumes "images \<noteq> []"
    and "\<not> (\<exists>w h. \<forall>img \<in> set images. width img = w \<and> height img = h)"
  shows "snd (harmonize d images) =
           Inr (map (\<lambda>img. crop_roi img 0 0 (Min (width ` set images)) (Min (height ` set images)))
                  images) \<and>
         snd (build_stack d images) =
           Inr \<lparr>stack_width = Min (width ` set images), stack_height = Min (height ` set images),
                slices = map (\<lambda>img. crop_roi img 0 0 (Min (width ` set images))
                                       (Min (height ` set images))) images\<rparr> \<and>
         (\<forall>img \<in> set images. \<forall>i j.
            pixel (crop_roi img 0 0 (Min (width ` set images)) (Min (height ` set images))) i j
              = pixel img i j) \<and>
         (\<exists>merged. snd (merge_image_list E d images) = Inr merged \<and>
            width merged = Min (width ` set images) \<and>
            height merged = Min (height ` set images))"
proof -
  let ?w = "Min (width ` set images)" and ?h = "Min (height ` set images)"
  let ?cropped = "map (\<lambda>img. crop_roi img 0 0 ?w ?h) images"
  have differ:
    "\<not> list_all (\<lambda>img. width img = width (hd images) \<and> height img = height (hd images)) images"
    using assms(2) by (auto simp: list_all_iff)
  have h: "harmonize d images = (log d (Cropping_all_images ?w ?h) INFO, Inr ?cropped)"
    using assms(1) differ
    by (simp add: harmonize_def crop_to_smallest_dimensions_def Let_def min_list_width
        min_list_height)
  have ne: "?cropped \<noteq> []" using assms(1) by simp
  have hd: "width (hd ?cropped) = ?w" "height (hd ?cropped) = ?h"
    using assms(1) by (simp_all add: hd_map crop_roi_def)
  have "add_slices \<lparr>stack_width = ?w, stack_height = ?h, slices = []\<rparr> ?cropped =
      Inr (\<lparr>stack_width = ?w, stack_height = ?h, slices = []\<rparr>
             \<lparr>slices := slices \<lparr>stack_width = ?w, stack_height = ?h, slices = []\<rparr> @ ?cropped\<rparr>)"
    by (rule add_slices_same_dimensions) (simp add: crop_roi_def)
  then have b: "build_stack d images =
      (log d (Cropping_all_images ?w ?h) INFO,
       Inr \<lparr>stack_width = ?w, stack_height = ?h, slices = ?cropped\<rparr>)"
    using h hd by (simp add: build_stack_def)
  have p: "\<forall>img \<in> set images. \<forall>i j. pixel (crop_roi img 0 0 ?w ?h) i j = pixel img i j"
    by (simp add: crop_roi_def)
  have m: "\<exists>merged. snd (merge_image_list E d images) = Inr merged \<and>
            width merged = ?w \<and> height merged = ?h"
    using b by (simp add: merge_image_list_def)
  show ?thesis using h b p m by simp
qed

theorem merge_crops_to_smallest_dimensions_witness:
  "three_images \<noteq> [] \<and>
   width (three_images ! 0) \<noteq> width (three_images ! 2) \<and>
   map (\<lambda>img. (width img, height img)) three_images = [(100, 100), (100, 100), (80, 120)] \<and>
   (\<exists>st. snd (build_stack dev_AB three_images) = Inr st \<and>
      stack_width st = 80 \<and> stack_height st = 100 \<and>
      map (\<lambda>img. (width img, height img)) (slices st) = [(80, 100), (80, 100), (80, 100)])"
proof -
  have differ: "\<not> (\<exists>w h. \<forall>img \<in> set three_images. width img = w \<and> height img = h)"
    by (auto simp: three_images_def img0_def img_80_120_def)
  have "three_images \<noteq> []" by (simp add: three_images_def)
  then show ?thesis
    using differ merge_crops_to_smallest_dimensions [of three_images dev_AB env0]
    by (simp add: three_images_def img0_def img_80_120_def crop_roi_def)
qed

section \<open>Natural sort order of the scanned files\<close>

text \<open>
  The example of the specification: the three names sort by the number after \<^verbatim>\<open>imgA\<close>.
\<close>

lemma sorted_image_files_example:
  "get_sorted_image_files ''/data'' [''imgA2.tif'', ''imgA10.tif'', ''imgA1.tif'']
     [''tif'', ''tiff'']
     = Inr [''/data/imgA1.tif'', ''/data/imgA2.tif'', ''/data/imgA10.tif'']"
  by code_simp


section \<open>Grouping: a file count that is not a multiple of the type count\<close>

lemma group_images_remainder:
  assumes "numTypes m \<noteq> 0" and "int (length files) mod numTypes m \<noteq> 0"
  shows "group_images E m files = (m, manager_log m Warning_not_a_multiple INFO, None)"
  using assms by (simp add: group_images_def Let_def)

lemma process_device_color_only:
  assumes "\<not> confirm_image_types (options m)" and "color (options m)"
    and "\<not> merge (options m)"
  shows "fst (process_device E m d) =
     fst (apply_color_to_images E d (typeColors m) (show_colored (options m)))"
  using assms by (simp add: process_device_def split: prod.splits)

lemma process_devices_one:
  "fst (process_devices E m [0]) = m\<lparr>devices := (devices m)[0 := fst (process_device E m (devices m ! 0))]\<rparr>"
  by (simp split: prod.splits option.splits)

lemma run_selected_processes_remainder:
  assumes "numTypes m \<noteq> 0" and "int (length files) mod numTypes m \<noteq> 0"
    and "scan_images m None tree = (files, o1, None)"
  shows "run_selected_processes E m tree =
     (case process_devices E m [0..<length (devices m)] of
        (m2, o2, Some e) \<Rightarrow> (m2, o1 @ manager_log m Warning_not_a_multiple INFO @ o2, Some e)
      | (m2, o2, None) \<Rightarrow>
          (m2, o1 @ manager_log m Warning_not_a_multiple INFO @ o2
                 @ manager_log m2 Finished_processing_all_devices INFO, None))"
  by (simp add: run_selected_processes_def walk_directory_and_add_images_def assms(3)
      group_images_remainder [OF assms(1,2)] split: prod.splits option.splits)

text \<open>
  Claim C5, as stated: when the number of files is not a multiple of the number of
  types, the run halts and no per-device stage executes for any device. It fails for a
  manager that holds a device before the run: \<^verbatim>\<open>walk_directory_and_add_images\<close> returns
  after the diagnostic, and \<^verbatim>\<open>run_selected_processes\<close> goes on to its loop over
  \<^verbatim>\<open>self.devices\<close>. With one file for two types and colouring selected, the device held
  is coloured: its colored slot is written.
\<close>

theorem run_after_remainder_colours_held_device:
  "numTypes man_AB_holding = 2 \<and>
   scan_images man_AB_holding None (Some (Dir [''a.tif''] [])) = ([''/data/a.tif''], [], None) \<and>
   colored_image_paths (devices man_AB_holding ! 0) ''A'' = Some None \<and>
   colored_image_paths
     (devices (res_state (run_selected_processes env0 man_AB_holding (Some (Dir [''a.tif''] []))))
        ! 0) ''A''
     = Some (Some ''/data/colored/a2_colored.tif'')"
proof -
  have m: "numTypes man_AB_holding = 2" "rootDir man_AB_holding = ''/data''"
    "\<not> m_verbose man_AB_holding" "devices man_AB_holding = [dev_A_two]"
    "process_subdirectories (options man_AB_holding)"
    "\<not> confirm_image_types (options man_AB_holding)" "color (options man_AB_holding)"
    "\<not> merge (options man_AB_holding)" "\<not> show_colored (options man_AB_holding)"
    "typeColors man_AB_holding = [''Red'', ''Green'']"
    by (simp_all add: man_AB_holding_def man_AB_def DeviceManager_init_def env0_def
        default_options_def)
  have g: "get_sorted_image_files ''/data'' [''a.tif''] [''tif'', ''tiff''] = Inr [''/data/a.tif'']"
    by code_simp
  have s: "scan_images man_AB_holding None (Some (Dir [''a.tif''] []))
      = ([''/data/a.tif''], [], None)"
    by (simp add: scan_images_def m g manager_log_def)
  have r: "int (length [''/data/a.tif'']) mod numTypes man_AB_holding \<noteq> 0"
    "numTypes man_AB_holding \<noteq> 0"
    by (simp_all add: m)
  have "res_state (run_selected_processes env0 man_AB_holding (Some (Dir [''a.tif''] []))) =
      fst (process_devices env0 man_AB_holding [0])"
    unfolding run_selected_processes_remainder [OF r(2) r(1) s]
    by (simp add: m res_state_def split: prod.splits option.splits)
  also have "\<dots> = man_AB_holding\<lparr>devices :=
      [fst (apply_color_to_images env0 dev_A_two [''Red'', ''Green''] False)]\<rparr>"
    unfolding process_devices_one process_device_color_only [OF m(6,7,8)]
    by (simp add: m)
  finally have st: "devices (res_state (run_selected_processes env0 man_AB_holding
        (Some (Dir [''a.tif''] [])))) ! 0 =
      res_state (apply_color_to_images env0 dev_A_two [''Red'', ''Green''] False)"
    by (simp add: res_state_def)
  have c: "colored_image_paths
      (res_state (apply_color_to_images env0 dev_A_two [''Red'', ''Green''] False)) ''A''
      = Some (Some ''/data/colored/a2_colored.tif'')"
    by (simp add: apply_color_to_images_slot slot_from_def colorized_def colorized_of_def
        pass_paths_def dev_A_two_def dev_AB_def Device_init_def colorizes_def
        env0_def colored_output_path_def splitext_def basename_def join_def)
  have b: "colored_image_paths (devices man_AB_holding ! 0) ''A'' = Some None"
    by (simp add: m dev_A_two_def dev_AB_def Device_init_def)
  show ?thesis
    using m(1) s b c unfolding st by simp
qed

text \<open>
  Claim C5, amended: when the number of files is not a multiple of the number of types
  (which is not zero), grouping makes no device and leaves the manager as it was; the
  diagnostic is handed to the \<^verbatim>\<open>log\<close> of the manager at the default level, nothing is
  raised and the call returns. The run does not halt there: it goes on to the loop over
  the devices that the manager holds, and ends with the closing line unless a stage
  raises. So the per-device stages run for the devices held before the run, and for a
  manager that holds none, as every manager does when constructed, no per-device stage
  runs: the run is the scan, the diagnostic and the closing line.
\<close>

theorem group_images_all_or_nothing:
  assumes "numTypes m \<noteq> 0" and "int (length files) mod numTypes m \<noteq> 0"
  shows "group_images E m files = (m, manager_log m Warning_not_a_multiple INFO, None) \<and>
     (scan_images m None tree = (files, o1, None) \<longrightarrow>
        walk_directory_and_add_images E m None tree =
          (m, o1 @ manager_log m Warning_not_a_multiple INFO, None) \<and>
        run_selected_processes E m tree =
          (case process_devices E m [0..<length (devices m)] of
             (m2, o2, Some e) \<Rightarrow>
               (m2, o1 @ manager_log m Warning_not_a_multiple INFO @ o2, Some e)
           | (m2, o2, None) \<Rightarrow>
               (m2, o1 @ manager_log m Warning_not_a_multiple INFO @ o2
                      @ manager_log m2 Finished_processing_all_devices INFO, None)) \<and>
        (devices m = [] \<longrightarrow>
           run_selected_processes E m tree =
             (m, o1 @ manager_log m Warning_not_a_multiple INFO
                   @ manager_log m Finished_processing_all_devices INFO, None))) \<and>
     devices (DeviceManager_init E root n tns colors vb opts) = []"
proof -
  note g = group_images_remainder [OF assms]
  have w: "scan_images m None tree = (files, o1, None) \<longrightarrow>
        walk_directory_and_add_images E m None tree =
          (m, o1 @ manager_log m Warning_not_a_multiple INFO, None)"
    by (simp add: walk_directory_and_add_images_def g)
  have r: "scan_images m None tree = (files, o1, None) \<longrightarrow>
        run_selected_processes E m tree =
          (case process_devices E m [0..<length (devices m)] of
             (m2, o2, Some e) \<Rightarrow>
               (m2, o1 @ manager_log m Warning_not_a_multiple INFO @ o2, Some e)
           | (m2, o2, None) \<Rightarrow>
               (m2, o1 @ manager_log m Warning_not_a_multiple INFO @ o2
                      @ manager_log m2 Finished_processing_all_devices INFO, None))"
    using run_selected_processes_remainder [OF assms] by blast
  have e: "scan_images m None tree = (files, o1, None) \<longrightarrow> devices m = [] \<longrightarrow>
           run_selected_processes E m tree =
             (m, o1 @ manager_log m Warning_not_a_multiple INFO
                   @ manager_log m Finished_processing_all_devices INFO, None)"
    using run_selected_processes_remainder [OF assms, of tree o1 E] by simp
  have i: "devices (DeviceManager_init E root n tns colors vb opts) = []"
    by (simp add: DeviceManager_init_def)
  show ?thesis
    using g w r e i by blast
qed

theorem group_images_all_or_nothing_witness:
  "numTypes man_AB_verbose \<noteq> 0 \<and>
   int (length [''/data/a.tif'']) mod numTypes man_AB_verbose \<noteq> 0 \<and>
   devices man_AB_verbose = [] \<and>
   scan_images man_AB_verbose None (Some (Dir [''a.tif'', ''notes.txt''] [])) =
     ([''/data/a.tif''], [Print INFO (Walking_directory_and_subdirectories ''/data'')], None) \<and>
   group_images env0 man_AB_verbose [''/data/a.tif''] =
     (man_AB_verbose, [Print INFO Warning_not_a_multiple], None) \<and>
   run_selected_processes env0 man_AB_verbose (Some (Dir [''a.tif'', ''notes.txt''] [])) =
     (man_AB_verbose,
      [Print INFO (Walking_directory_and_subdirectories ''/data''),
       Print INFO Warning_not_a_multiple,
       Print INFO Finished_processing_all_devices], None)"
proof -
  have m: "rootDir man_AB_verbose = ''/data''" "m_verbose man_AB_verbose"
    "process_subdirectories (options man_AB_verbose)"
    by (simp_all add: man_AB_verbose_def DeviceManager_init_def env0_def default_options_def)
  have g: "get_sorted_image_files ''/data'' [''a.tif'', ''notes.txt''] [''tif'', ''tiff'']
      = Inr [''/data/a.tif'']"
    by code_simp
  have s: "scan_images man_AB_verbose None (Some (Dir [''a.tif'', ''notes.txt''] [])) =
     ([''/data/a.tif''], [Print INFO (Walking_directory_and_subdirectories ''/data'')], None)"
    by (simp add: scan_images_def m g manager_log_def)
  have h: "numTypes man_AB_verbose \<noteq> 0"
    "int (length [''/data/a.tif'']) mod numTypes man_AB_verbose \<noteq> 0"
    by (simp_all add: man_AB_verbose_def DeviceManager_init_def)
  have v: "devices man_AB_verbose = []"
    by (simp add: man_AB_verbose_def DeviceManager_init_def)
  show ?thesis
    using group_images_all_or_nothing
      [OF h, of env0 "Some (Dir [''a.tif'', ''notes.txt''] [])"
        "[Print INFO (Walking_directory_and_subdirectories ''/data'')]"] s h v m(2)
    by (simp add: manager_log_def)
qed

end
